theory Spec2Isabelle
  imports Complex_Main
begin

section \<open>Singing-voice-synthesis inference: \<open>espnet2/bin/svs_inference.py\<close>\<close>

text \<open>
  A shallow embedding of the inference script: the class \<open>SingingGenerate\<close> (its
  constructor and its \<open>__call__\<close>) and the function \<open>inference\<close> that runs it over a
  data loader. The trained models, the vocoder, the preprocessing function, the duration
  calculator and the loader are collaborators outside the script: they appear as
  functions that return an error or a value.
\<close>

subsection \<open>Exceptions\<close>

text \<open>Every exception the script raises or lets through is a value; the string is the message.\<close>

datatype error =
    RuntimeError string
  | KeyError string
  | TypeError string
  | ValueError string
  | IndexError string
  | AttributeError string
  | NotImplementedError string
  | AssertionError string
  | UnboundLocalError string
  | StopIteration
  | FileNotFoundError string

subsection \<open>Tensors\<close>

text \<open>
  A tensor is its shape and its elements in row-major order. Only the operations the
  script applies are modelled: \<open>view(-1, L)\<close>, \<open>view(L, -1)\<close>, \<open>transpose(0, 1)\<close>,
  \<open>x[:, i]\<close>, \<open>unsqueeze(1)\<close>, \<open>x[::k]\<close>, \<open>x[0]\<close>, \<open>size(0)\<close> and \<open>len\<close>.
  The tensors a collaborator returns are taken to be contiguous, so that \<open>view\<close> depends
  on the number of elements only.
\<close>

datatype 'a tensor = Tensor (shape: "nat list") (elems: "'a list")

definition numel :: "'a tensor \<Rightarrow> nat" where
  "numel x = length (elems x)"

text \<open>
  \<open>x.view(-1, L)\<close>: the first dimension is inferred. PyTorch raises a RuntimeError when
  the number of elements is not a multiple of \<open>L\<close>, and when \<open>L = 0\<close>.
\<close>

definition view_rows :: "nat \<Rightarrow> 'a tensor \<Rightarrow> error + 'a tensor" where
  "view_rows L x =
     (if L = 0 \<or> numel x mod L \<noteq> 0 then Inl (RuntimeError ''shape is invalid for input'')
      else Inr (Tensor [numel x div L, L] (elems x)))"

text \<open>\<open>x.view(L, -1)\<close>: the second dimension is inferred.\<close>

definition view_cols :: "nat \<Rightarrow> 'a tensor \<Rightarrow> error + 'a tensor" where
  "view_cols L x =
     (if L = 0 \<or> numel x mod L \<noteq> 0 then Inl (RuntimeError ''shape is invalid for input'')
      else Inr (Tensor [L, numel x div L] (elems x)))"

text \<open>
  \<open>x.transpose(0, 1)\<close> swaps the first two dimensions: element \<open>(j, i)\<close> of the result is
  element \<open>(i, j)\<close> of \<open>x\<close> (a block of \<open>p\<close> elements when \<open>x\<close> has further dimensions of
  product \<open>p\<close>). A tensor of fewer than two dimensions has no dimension 1.
\<close>

fun transpose01 :: "'a tensor \<Rightarrow> error + 'a tensor" where
  "transpose01 (Tensor [a, b] es) =
     Inr (Tensor [b, a] (concat (map (\<lambda>j. map (\<lambda>i. es ! (i * b + j)) [0..<a]) [0..<b])))"
| "transpose01 (Tensor (a # b # c # r) es) =
     (let p = prod_list (c # r) in
      Inr (Tensor (b # a # c # r)
        (concat (map (\<lambda>j. concat (map (\<lambda>i. take p (drop ((i * b + j) * p) es)) [0..<a]))
           [0..<b]))))"
| "transpose01 (Tensor s es) = Inl (IndexError ''Dimension out of range'')"

text \<open>Element \<open>(t, l)\<close> of a two-dimensional tensor.\<close>

definition at2 :: "'a tensor \<Rightarrow> nat \<Rightarrow> nat \<Rightarrow> 'a" where
  "at2 x t l = elems x ! (t * (shape x ! 1) + l)"

subsection \<open>The vocoder's input\<close>

text \<open>
  \<open>input_feat\<close> is \<open>None\<close> (the key \<open>feat_gen\<close> present with the value \<open>None\<close>), a tensor,
  or the dictionary from resolution to tensor that the \<open>use_singomd\<close> branch builds.
\<close>

datatype 'a feat = FeatNone | Feat "'a tensor" | FeatDict "(int \<times> 'a tensor) list"

text \<open>
  Lines 291 to 298, the reshaping of a multi-layer token sequence:
  \<^verbatim>\<open>
  if self.discrete_token_layers > 1:
      if self.mix_type == "frame":
          input_feat = input_feat.view(-1, self.discrete_token_layers)
      elif self.mix_type == "sequence":
          input_feat = input_feat.view(self.discrete_token_layers, -1).transpose(0, 1)
  \<close>
  A method call on \<open>None\<close> raises AttributeError. \<open>input_feat\<close> is never a dictionary here.
\<close>

definition mix_reshape :: "int \<Rightarrow> string \<Rightarrow> 'a feat \<Rightarrow> error + 'a feat" where
  "mix_reshape discrete_token_layers mix_type input_feat =
     (if discrete_token_layers > 1 then
        (if mix_type = ''frame'' then
           (case input_feat of
              Feat x \<Rightarrow> map_sum id Feat (view_rows (nat discrete_token_layers) x)
            | _ \<Rightarrow> Inl (AttributeError ''view''))
         else if mix_type = ''sequence'' then
           (case input_feat of
              Feat x \<Rightarrow>
                (case view_cols (nat discrete_token_layers) x of
                   Inl e \<Rightarrow> Inl e
                 | Inr y \<Rightarrow> map_sum id Feat (transpose01 y))
            | _ \<Rightarrow> Inl (AttributeError ''view''))
         else Inr input_feat)
      else Inr input_feat)"

text \<open>
  The \<open>use_singomd\<close> branch, lines 301 to 308, indexes and slices the tensor:
  \<open>x[:, i]\<close> needs two dimensions and \<open>i\<close> within the second; \<open>unsqueeze(1)\<close> inserts a
  dimension of size 1; \<open>x[::k]\<close> keeps every \<open>k\<close>-th row.
\<close>

definition select_column :: "nat \<Rightarrow> 'a tensor \<Rightarrow> error + 'a tensor" where
  "select_column i x =
     (case shape x of
        n # c # r \<Rightarrow>
          (if i < c then
             (let p = prod_list r in
              Inr (Tensor (n # r)
                (concat (map (\<lambda>t. take p (drop ((t * c + i) * p) (elems x))) [0..<n]))))
           else Inl (IndexError ''index is out of bounds for dimension 1''))
      | _ \<Rightarrow> Inl (IndexError ''too many indices for tensor''))"

definition unsqueeze1 :: "'a tensor \<Rightarrow> error + 'a tensor" where
  "unsqueeze1 x =
     (case shape x of
        n # r \<Rightarrow> Inr (Tensor (n # 1 # r) (elems x))
      | [] \<Rightarrow> Inl (IndexError ''Dimension out of range''))"

definition stride_rows :: "nat \<Rightarrow> 'a tensor \<Rightarrow> error + 'a tensor" where
  "stride_rows k x =
     (case shape x of
        n # r \<Rightarrow>
          (if k = 0 then Inl (ValueError ''step must be greater than zero'')
           else
             (let p = prod_list r; ts = filter (\<lambda>t. t mod k = 0) [0..<n] in
              Inr (Tensor (length ts # r)
                (concat (map (\<lambda>t. take p (drop (t * p) (elems x))) ts)))))
      | [] \<Rightarrow> Inl (IndexError ''slice() cannot be applied to a 0-dim tensor''))"

text \<open>
  One round of the loop over \<open>enumerate(resolution)\<close>:
  \<^verbatim>\<open>
  feat = input_feat[:, i].unsqueeze(1)
  feat = feat[:: (rs // 20)]
  \<close>
\<close>

definition singomd_feat :: "'a tensor \<Rightarrow> nat \<Rightarrow> int \<Rightarrow> error + 'a tensor" where
  "singomd_feat x i rs =
     (case select_column i x of
        Inl e \<Rightarrow> Inl e
      | Inr c \<Rightarrow>
          (case unsqueeze1 c of
             Inl e \<Rightarrow> Inl e
           | Inr u \<Rightarrow> stride_rows (nat (rs div 20)) u))"

text \<open>
  The whole branch, with \<open>resolution = [20, 40]\<close>; subscripting \<open>None\<close> raises TypeError.
\<close>

definition singomd :: "'a feat \<Rightarrow> error + 'a feat" where
  "singomd input_feat =
     (case input_feat of
        Feat x \<Rightarrow>
          (case singomd_feat x 0 20 of
             Inl e \<Rightarrow> Inl e
           | Inr f0 \<Rightarrow>
               (case singomd_feat x 1 40 of
                  Inl e \<Rightarrow> Inl e
                | Inr f1 \<Rightarrow> Inr (FeatDict [(20, f0), (40, f1)])))
      | _ \<Rightarrow> Inl (TypeError ''object is not subscriptable''))"

subsection \<open>Dictionaries and the objects of a run\<close>

text \<open>
  A Python dictionary is a map. The batch maps a slot name to a tensor, a decoding
  configuration maps an option name to a value, and the dictionary an acoustic model
  returns maps a field name to a tensor or to \<open>None\<close>: there \<open>Some None\<close> is a key
  present with the value \<open>None\<close>. A Python float is the real number its literal
  denotes; the script only stores floats and passes them on.
\<close>

datatype conf_value = VNone | VBool bool | VInt int | VFloat real | VStr string

type_synonym 'a batch = "string \<rightharpoonup> 'a tensor"

type_synonym conf = "string \<rightharpoonup> conf_value"

type_synonym 'a output_dict = "string \<rightharpoonup> 'a tensor option"

text \<open>\<open>d.get(k)\<close> is \<open>None\<close> for a missing key and for a key bound to \<open>None\<close>.\<close>

definition dict_get :: "'a output_dict \<Rightarrow> string \<Rightarrow> 'a tensor option" where
  "dict_get d k = (case d k of None \<Rightarrow> None | Some v \<Rightarrow> v)"

text \<open>\<open>d[k]\<close> raises KeyError for a missing key.\<close>

definition dict_getitem :: "'a output_dict \<Rightarrow> string \<Rightarrow> error + 'a tensor option" where
  "dict_getitem d k = (case d k of None \<Rightarrow> Inl (KeyError k) | Some v \<Rightarrow> Inr v)"

text \<open>
  The decoding configuration is a mutable dictionary that \<open>self.decode_conf\<close> and the
  local variable \<open>cfg\<close> may share, so it lives in a store of dictionary objects: an
  address is an index into the store, \<open>{}\<close> and \<open>copy()\<close> allocate a new object and
  \<open>update\<close> changes the object in place.
\<close>

type_synonym addr = nat

definition dict_new :: "conf list \<Rightarrow> addr \<times> conf list" where
  "dict_new h = (length h, h @ [Map.empty])"

definition dict_copy :: "conf list \<Rightarrow> addr \<Rightarrow> addr \<times> conf list" where
  "dict_copy h a = (length h, h @ [h ! a])"

definition dict_update :: "conf list \<Rightarrow> addr \<Rightarrow> conf \<Rightarrow> conf list" where
  "dict_update h a d = h[a := (h ! a) ++ d]"

text \<open>
  What a run does to the outside is recorded in the state: the store, the calls of the
  collaborators in order, the directories that exist under the output directory and the
  utterances each output channel received.
\<close>

datatype 'a event =
    Build_model
  | Build_vocoder
  | Build_loader
  | Preprocess_call
  | Model_call "'a batch" conf
  | Duration_call "'a tensor"
  | Vocoder_call "'a feat" "'a tensor option"

record 'a state =
  heap :: "conf list"
  trace :: "'a event list"
  dirs :: "string set"
  received :: "(string \<times> string) list"

definition log_call :: "'a event \<Rightarrow> 'a state \<Rightarrow> 'a state" where
  "log_call e s = s\<lparr>trace := trace s @ [e]\<rparr>"

subsection \<open>The acoustic model and the class \<open>SingingGenerate\<close>\<close>

text \<open>
  The class of \<open>model.svs\<close> decides the two \<open>isinstance\<close> tests of the constructor.
  \<open>VITS\<close> and \<open>singing_tacotron\<close> are unrelated classes, so an object is an instance of
  at most one of them.
\<close>

datatype svs_class = VITS | singing_tacotron | Other_SVS

definition isinstance_VITS :: "svs_class \<Rightarrow> bool" where
  "isinstance_VITS c = (c = VITS)"

definition isinstance_singing_tacotron :: "svs_class \<Rightarrow> bool" where
  "isinstance_singing_tacotron c = (c = singing_tacotron)"

record svs_model =
  svs_class :: svs_class
  spks :: "int option"
  langs :: "int option"
  spk_embed_dim :: "int option"

record 'a espnet_model =
  svs :: svs_model
  model_inference :: "'a batch \<Rightarrow> conf \<Rightarrow> error + 'a output_dict"

text \<open>
  A vocoder is called as \<open>vocoder(input_feat)\<close> or as \<open>vocoder(input_feat, pitch)\<close>: the
  second argument is \<open>None\<close> for the first form.
\<close>

type_synonym 'a vocoder_fn = "'a feat \<Rightarrow> 'a tensor option \<Rightarrow> error + 'a tensor"

type_synonym ('a, 'r) preprocess = "string \<Rightarrow> (string \<rightharpoonup> 'r) \<Rightarrow> error + 'a batch"

record ('a, 'r) SingingGenerate =
  model :: "'a espnet_model"
  preprocess_fn :: "('a, 'r) preprocess"
  duration_calculator :: "'a tensor \<Rightarrow> error + 'a tensor \<times> 'a tensor"
  vocoder :: "'a vocoder_fn option"
  prefer_normalized_feats :: bool
  discrete_token_layers :: int
  mix_type :: string
  decode_conf :: addr

text \<open>The properties \<open>use_sids\<close>, \<open>use_lids\<close> and \<open>use_spembs\<close>, lines 338 to 351.\<close>

definition use_sids :: "('a, 'r) SingingGenerate \<Rightarrow> bool" where
  "use_sids self = (spks (svs (model self)) \<noteq> None)"

definition use_lids :: "('a, 'r) SingingGenerate \<Rightarrow> bool" where
  "use_lids self = (langs (svs (model self)) \<noteq> None)"

definition use_spembs :: "('a, 'r) SingingGenerate \<Rightarrow> bool" where
  "use_spembs self = (spk_embed_dim (svs (model self)) \<noteq> None)"

text \<open>
  The classes \<open>SVSTask\<close> and \<open>GANSVSTask\<close> build the objects from files. What the files
  hold is outside the script, so each builder is the value it returns for the paths of
  the run, or the error it raises. A loader is the finite sequence it yields: a list of
  pairs of utterance ids and a batch (a dictionary, in the order of its keys), where a
  left value is the loader raising at that point.
\<close>

type_synonym 'a item = "string list \<times> (string \<times> 'a tensor) list"

record ('a, 'r) task_class =
  build_model_from_file :: "error + 'a espnet_model"
  build_preprocess_fn :: "('a, 'r) preprocess"
  build_vocoder_from_file :: "error + 'a vocoder_fn"
  build_streaming_iterator :: "error + (error + 'a item) list"

record ('a, 'r) env =
  SVSTask :: "('a, 'r) task_class"
  GANSVSTask :: "('a, 'r) task_class"
  DurationCalculator :: "'a tensor \<Rightarrow> error + 'a tensor \<times> 'a tensor"

subsection \<open>The constructor, lines 95 to 183\<close>

text \<open>
  Lines 165 to 183 build the decoding configuration as a new dictionary:
  \<^verbatim>\<open>
  decode_conf = {}
  decode_conf.update({"use_teacher_forcing": use_teacher_forcing})
  if isinstance(self.svs, VITS):
      decode_conf.update(noise_scale=noise_scale, noise_scale_dur=noise_scale_dur)
  if isinstance(self.svs, singing_tacotron):
      decode_conf.update(threshold=threshold, maxlenratio=maxlenratio, ...)
  \<close>
\<close>

definition setup_decode_conf ::
  "svs_class \<Rightarrow> real \<Rightarrow> real \<Rightarrow> real \<Rightarrow> bool \<Rightarrow> bool \<Rightarrow> bool \<Rightarrow> int \<Rightarrow> int \<Rightarrow> real \<Rightarrow> real
   \<Rightarrow> conf list \<Rightarrow> addr \<times> conf list" where
  "setup_decode_conf cls threshold minlenratio maxlenratio use_teacher_forcing
     use_att_constraint use_dynamic_filter backward_window forward_window
     noise_scale noise_scale_dur h =
     (let (decode_conf', h0) = dict_new h;
          h1 = dict_update h0 decode_conf'
                 [''use_teacher_forcing'' \<mapsto> VBool use_teacher_forcing];
          h2 = (if isinstance_VITS cls then
                  dict_update h1 decode_conf'
                    [''noise_scale'' \<mapsto> VFloat noise_scale,
                     ''noise_scale_dur'' \<mapsto> VFloat noise_scale_dur]
                else h1);
          h3 = (if isinstance_singing_tacotron cls then
                  dict_update h2 decode_conf'
                    [''threshold'' \<mapsto> VFloat threshold,
                     ''maxlenratio'' \<mapsto> VFloat maxlenratio,
                     ''minlenratio'' \<mapsto> VFloat minlenratio,
                     ''use_att_constraint'' \<mapsto> VBool use_att_constraint,
                     ''use_dynamic_filter'' \<mapsto> VBool use_dynamic_filter,
                     ''forward_window'' \<mapsto> VInt forward_window,
                     ''backward_window'' \<mapsto> VInt backward_window]
                else h2)
      in (decode_conf', h3))"

text \<open>
  Lines 124 to 129: the task class, or ValueError for an unsupported task name.
\<close>

definition select_task :: "('a, 'r) env \<Rightarrow> string \<Rightarrow> error + ('a, 'r) task_class" where
  "select_task env svs_task =
     (if svs_task = ''svs'' then Inr (SVSTask env)
      else if svs_task = ''gan_svs'' then Inr (GANSVSTask env)
      else Inl (ValueError ''Unsupported task''))"

text \<open>
  Lines 147 to 157: \<open>self.vocoder\<close> stays \<open>None\<close> unless a vocoder checkpoint is given.
\<close>

definition build_vocoder ::
  "('a, 'r) task_class \<Rightarrow> string option \<Rightarrow> 'a state \<Rightarrow> (error + 'a vocoder_fn option) \<times> 'a state" where
  "build_vocoder SVSTaskClass vocoder_checkpoint s =
     (if vocoder_checkpoint \<noteq> None then
        (case build_vocoder_from_file SVSTaskClass of
           Inl e \<Rightarrow> (Inl e, log_call Build_vocoder s)
         | Inr v \<Rightarrow> (Inr (Some v), log_call Build_vocoder s))
      else (Inr None, s))"

text \<open>
  The constructor. Its parameters are those of the source that the modelled state depends
  on, in the source's order; the paths, \<open>dtype\<close>, \<open>device\<close>, \<open>seed\<close>, \<open>always_fix_seed\<close>
  and \<open>speed_control_alpha\<close> only reach the builders or are stored and never read.
  A parameter or local variable whose name is also an attribute of \<open>self\<close> is primed.
\<close>

definition SingingGenerate_init ::
  "('a, 'r) env \<Rightarrow> real \<Rightarrow> real \<Rightarrow> real \<Rightarrow> bool \<Rightarrow> bool \<Rightarrow> bool \<Rightarrow> int \<Rightarrow> int \<Rightarrow> real \<Rightarrow> real
   \<Rightarrow> string option \<Rightarrow> int \<Rightarrow> string \<Rightarrow> bool \<Rightarrow> string
   \<Rightarrow> 'a state \<Rightarrow> (error + ('a, 'r) SingingGenerate) \<times> 'a state" where
  "SingingGenerate_init env threshold minlenratio maxlenratio use_teacher_forcing
     use_att_constraint use_dynamic_filter backward_window forward_window
     noise_scale noise_scale_dur vocoder_checkpoint discrete_token_layers' mix_type'
     prefer_normalized_feats' svs_task s =
     (case select_task env svs_task of
        Inl e \<Rightarrow> (Inl e, s)
      | Inr SVSTaskClass \<Rightarrow>
          (case build_model_from_file SVSTaskClass of
             Inl e \<Rightarrow> (Inl e, log_call Build_model s)
           | Inr model' \<Rightarrow>
               (case build_vocoder SVSTaskClass vocoder_checkpoint (log_call Build_model s) of
                  (Inl e, s1) \<Rightarrow> (Inl e, s1)
                | (Inr vocoder', s1) \<Rightarrow>
                    (let (decode_conf', h) =
                           setup_decode_conf (svs_class (svs model')) threshold minlenratio
                             maxlenratio use_teacher_forcing use_att_constraint
                             use_dynamic_filter backward_window forward_window
                             noise_scale noise_scale_dur (heap s1)
                     in (Inr \<lparr>model = model',
                               preprocess_fn = build_preprocess_fn SVSTaskClass,
                               duration_calculator = DurationCalculator env,
                               vocoder = vocoder',
                               prefer_normalized_feats = prefer_normalized_feats',
                               discrete_token_layers = discrete_token_layers',
                               mix_type = mix_type',
                               decode_conf = decode_conf'\<rparr>,
                         s1\<lparr>heap := h\<rparr>)))))"

subsection \<open>The synthesis call \<open>__call__\<close>, lines 187 to 321\<close>

text \<open>
  The first argument is a dictionary of raw score data or an aligned tensor; the slots
  are tensors or \<open>None\<close>; \<open>**kwargs\<close> takes every other keyword. The argument named
  \<open>text\<close> in the source is \<open>text_arg\<close> here and the argument \<open>decode_conf\<close> is
  \<open>decode_conf_arg\<close>.
\<close>

datatype ('a, 'r) text_input = TextDict "string \<rightharpoonup> 'r" | TextTensor "'a tensor"

datatype 'a kwarg = KwBool bool | KwTensor "'a tensor"

record ('a, 'r) call_args =
  text_arg :: "('a, 'r) text_input"
  singing :: "'a tensor option"
  label :: "'a tensor option"
  midi :: "'a tensor option"
  duration_phn :: "'a tensor option"
  duration_ruled_phn :: "'a tensor option"
  duration_syb :: "'a tensor option"
  phn_cnt :: "'a tensor option"
  slur :: "'a tensor option"
  pitch :: "'a tensor option"
  energy :: "'a tensor option"
  spembs :: "'a tensor option"
  sids :: "'a tensor option"
  lids :: "'a tensor option"
  discrete_token :: "'a tensor option"
  decode_conf_arg :: "conf option"
  kwargs :: "string \<rightharpoonup> 'a kwarg"

text \<open>Lines 208 to 214: the three checks, in order; \<open>None\<close> when all pass.\<close>

definition check_inputs :: "('a, 'r) SingingGenerate \<Rightarrow> ('a, 'r) call_args \<Rightarrow> error option" where
  "check_inputs self a =
     (if use_sids self \<and> sids a = None
        then Some (RuntimeError ''Missing required argument: sids'')
      else if use_lids self \<and> lids a = None
        then Some (RuntimeError ''Missing required argument: lids'')
      else if use_spembs self \<and> spembs a = None
        then Some (RuntimeError ''Missing required argument: spembs'')
      else None)"

text \<open>
  Lines 220 to 224: \<open>infer_data\<close> holds the score and the label, or the text when there
  is no label; a missing key raises KeyError.
\<close>

definition infer_data_of :: "(string \<rightharpoonup> 'r) \<Rightarrow> error + (string \<rightharpoonup> 'r)" where
  "infer_data_of text =
     (case text ''score'' of
        None \<Rightarrow> Inl (KeyError ''score'')
      | Some score \<Rightarrow>
          (case text ''label'' of
             Some l \<Rightarrow> Inr [''score'' \<mapsto> score, ''label'' \<mapsto> l]
           | None \<Rightarrow>
               (case text ''text'' of
                  None \<Rightarrow> Inl (KeyError ''text'')
                | Some t \<Rightarrow> Inr [''score'' \<mapsto> score, ''text'' \<mapsto> t])))"

text \<open>\<open>if x is not None: batch.update(k=x)\<close>.\<close>

definition update_if :: "string \<Rightarrow> 'a tensor option \<Rightarrow> 'a batch \<Rightarrow> 'a batch" where
  "update_if k x batch = (case x of None \<Rightarrow> batch | Some t \<Rightarrow> batch(k \<mapsto> t))"

text \<open>Lines 237 to 264, in the source's order.\<close>

definition assemble :: "'a batch \<Rightarrow> ('a, 'r) call_args \<Rightarrow> 'a batch" where
  "assemble batch a =
     update_if ''discrete_token'' (discrete_token a)
      (update_if ''lids'' (lids a)
      (update_if ''sids'' (sids a)
      (update_if ''spembs'' (spembs a)
      (update_if ''energy'' (energy a)
      (update_if ''slur'' (slur a)
      (update_if ''phn_cnt'' (phn_cnt a)
      (update_if ''pitch'' (pitch a)
      (update_if ''duration_syb'' (duration_syb a)
      (update_if ''duration_ruled_phn'' (duration_ruled_phn a)
      (update_if ''duration_phn'' (duration_phn a)
      (update_if ''midi'' (midi a)
      (update_if ''label'' (label a)
      (update_if ''singing'' (singing a) batch)))))))))))))"

text \<open>
  Lines 217 to 265. With a dictionary the preprocessing function is called and its
  result replaces the label, the midi, the three durations, the phoneme count and the
  slur (a key it does not return raises KeyError, the first in the order of the
  assignments); \<open>to_device\<close> moves the tensors and changes no value.
\<close>

definition prepare_batch ::
  "('a, 'r) SingingGenerate \<Rightarrow> ('a, 'r) call_args \<Rightarrow> 'a state \<Rightarrow> (error + 'a batch) \<times> 'a state" where
  "prepare_batch self a s =
     (case text_arg a of
        TextTensor t \<Rightarrow> (Inr (assemble [''text'' \<mapsto> t] a), s)
      | TextDict text \<Rightarrow>
          (case infer_data_of text of
             Inl e \<Rightarrow> (Inl e, s)
           | Inr infer_data \<Rightarrow>
               (case preprocess_fn self ''<dummy>'' infer_data of
                  Inl e \<Rightarrow> (Inl e, log_call Preprocess_call s)
                | Inr data \<Rightarrow>
                    (case find (\<lambda>k. data k = None)
                            [''label'', ''midi'', ''duration_phn'', ''duration_ruled_phn'',
                             ''duration_syb'', ''phn_cnt'', ''slur''] of
                       Some k \<Rightarrow> (Inl (KeyError k), log_call Preprocess_call s)
                     | None \<Rightarrow>
                         (Inr (assemble (Map.empty(''text'' := data ''label''))
                                 (a\<lparr>label := data ''label'',
                                    midi := data ''midi'',
                                    duration_phn := data ''duration_phn'',
                                    duration_ruled_phn := data ''duration_ruled_phn'',
                                    duration_syb := data ''duration_syb'',
                                    phn_cnt := data ''phn_cnt'',
                                    slur := data ''slur''\<rparr>)),
                          log_call Preprocess_call s)))))"

text \<open>
  Lines 267 to 270:
  \<^verbatim>\<open>
  cfg = self.decode_conf
  if decode_conf is not None:
      cfg = self.decode_conf.copy()
      cfg.update(decode_conf)
  \<close>
\<close>

definition select_cfg ::
  "('a, 'r) SingingGenerate \<Rightarrow> conf option \<Rightarrow> conf list \<Rightarrow> addr \<times> conf list" where
  "select_cfg self override h =
     (case override of
        None \<Rightarrow> (decode_conf self, h)
      | Some d \<Rightarrow> (let (cfg, h1) = dict_copy h (decode_conf self) in (cfg, dict_update h1 cfg d)))"

text \<open>
  Line 271 calls \<open>self.model.inference\<close> with the entries of \<open>batch\<close> and of \<open>cfg\<close>
  as keyword arguments. A keyword given by both dictionaries raises TypeError before the
  model is entered; the keys of the batch are among the slot names.
\<close>

definition slot_names :: "string list" where
  "slot_names =
     [''text'', ''singing'', ''label'', ''midi'', ''duration_phn'', ''duration_ruled_phn'',
      ''duration_syb'', ''pitch'', ''phn_cnt'', ''slur'', ''energy'', ''spembs'', ''sids'',
      ''lids'', ''discrete_token'']"

definition call_inference ::
  "('a, 'r) SingingGenerate \<Rightarrow> 'a batch \<Rightarrow> conf \<Rightarrow> 'a state \<Rightarrow> (error + 'a output_dict) \<times> 'a state" where
  "call_inference self batch cfg s =
     (if list_ex (\<lambda>k. batch k \<noteq> None \<and> cfg k \<noteq> None) slot_names
        then (Inl (TypeError ''got multiple values for keyword argument''), s)
      else (model_inference (model self) batch cfg, log_call (Model_call batch cfg) s))"

text \<open>
  Lines 300 to 308 stand inside the test \<open>self.discrete_token_layers > 1\<close> of line 291,
  after the reshaping: \<open>kwargs.get("use_singomd", False) is True\<close> holds for the
  boolean \<open>True\<close> only.
\<close>

definition singomd_step :: "int \<Rightarrow> (string \<rightharpoonup> 'a kwarg) \<Rightarrow> 'a feat \<Rightarrow> error + 'a feat" where
  "singomd_step layers kw input_feat =
     (if layers > 1 \<and> kw ''use_singomd'' = Some (KwBool True) then singomd input_feat
      else Inr input_feat)"

text \<open>
  Lines 281 to 319, the body of \<open>if self.vocoder is not None\<close>: the feature is chosen
  (\<open>output_dict["feat_gen"]\<close> raises KeyError when the key is missing), reshaped, and
  given to the vocoder, with the pitch when the output has one. The pitch must have one
  dimension; the log line of the pitch branch reads \<open>input_feat.shape\<close>, which only a
  tensor has.
\<close>

definition apply_vocoder ::
  "('a, 'r) SingingGenerate \<Rightarrow> 'a vocoder_fn \<Rightarrow> (string \<rightharpoonup> 'a kwarg) \<Rightarrow> 'a output_dict \<Rightarrow> 'a state
   \<Rightarrow> (error + 'a output_dict) \<times> 'a state" where
  "apply_vocoder self voc kw output_dict s =
     (case (if prefer_normalized_feats self \<or> dict_get output_dict ''feat_gen_denorm'' = None
            then dict_getitem output_dict ''feat_gen''
            else dict_getitem output_dict ''feat_gen_denorm'') of
        Inl e \<Rightarrow> (Inl e, s)
      | Inr v \<Rightarrow>
          (case mix_reshape (discrete_token_layers self) (mix_type self)
                  (case v of None \<Rightarrow> FeatNone | Some x \<Rightarrow> Feat x) of
             Inl e \<Rightarrow> (Inl e, s)
           | Inr reshaped \<Rightarrow>
               (case singomd_step (discrete_token_layers self) kw reshaped of
                  Inl e \<Rightarrow> (Inl e, s)
                | Inr input_feat \<Rightarrow>
                    (case dict_get output_dict ''pitch'' of
                       Some p \<Rightarrow>
                         (if length (shape p) \<noteq> 1
                            then (Inl (AssertionError ''pitch shape must be (T,).''), s)
                          else
                            (case input_feat of
                               Feat x \<Rightarrow>
                                 (case voc input_feat (Some p) of
                                    Inl e \<Rightarrow> (Inl e, log_call (Vocoder_call input_feat (Some p)) s)
                                  | Inr wav \<Rightarrow>
                                      (Inr (output_dict(''wav'' \<mapsto> Some wav)),
                                       log_call (Vocoder_call input_feat (Some p)) s))
                             | _ \<Rightarrow> (Inl (AttributeError ''shape''), s)))
                     | None \<Rightarrow>
                         (case voc input_feat None of
                            Inl e \<Rightarrow> (Inl e, log_call (Vocoder_call input_feat None) s)
                          | Inr wav \<Rightarrow>
                              (Inr (output_dict(''wav'' \<mapsto> Some wav)),
                               log_call (Vocoder_call input_feat None) s))))))"

text \<open>
  Lines 273 to 321:
  \<^verbatim>\<open>
  if output_dict.get("att_w") is not None:
      duration, focus_rate = self.duration_calculator(output_dict["att_w"])
      output_dict.update(duration=duration, focus_rate=focus_rate)
  else:
      output_dict.update(duration=None, focus_rate=None)

      # apply vocoder (mel-to-wav)
      if self.vocoder is not None:
          ...
  return output_dict
  \<close>
  The vocoder block is inside the \<open>else\<close> branch.
\<close>

definition post_process ::
  "('a, 'r) SingingGenerate \<Rightarrow> (string \<rightharpoonup> 'a kwarg) \<Rightarrow> 'a output_dict \<Rightarrow> 'a state
   \<Rightarrow> (error + 'a output_dict) \<times> 'a state" where
  "post_process self kw output_dict s =
     (case dict_get output_dict ''att_w'' of
        Some att_w \<Rightarrow>
          (case duration_calculator self att_w of
             Inl e \<Rightarrow> (Inl e, log_call (Duration_call att_w) s)
           | Inr (duration, focus_rate) \<Rightarrow>
               (Inr (output_dict(''duration'' \<mapsto> Some duration, ''focus_rate'' \<mapsto> Some focus_rate)),
                log_call (Duration_call att_w) s))
      | None \<Rightarrow>
          (case vocoder self of
             None \<Rightarrow> (Inr (output_dict(''duration'' \<mapsto> None, ''focus_rate'' \<mapsto> None)), s)
           | Some voc \<Rightarrow>
               apply_vocoder self voc kw
                 (output_dict(''duration'' \<mapsto> None, ''focus_rate'' \<mapsto> None)) s))"

text \<open>
  Lines 208 to 271, the call up to the return of the acoustic model: the checks, the
  batch, the configuration, the model.
\<close>

definition run_model ::
  "('a, 'r) SingingGenerate \<Rightarrow> ('a, 'r) call_args \<Rightarrow> 'a state
   \<Rightarrow> (error + 'a output_dict) \<times> 'a state" where
  "run_model self a s =
     (case check_inputs self a of
        Some e \<Rightarrow> (Inl e, s)
      | None \<Rightarrow>
          (case prepare_batch self a s of
             (Inl e, s1) \<Rightarrow> (Inl e, s1)
           | (Inr batch, s1) \<Rightarrow>
               (let (cfg, h) = select_cfg self (decode_conf_arg a) (heap s1)
                in call_inference self batch (h ! cfg) (s1\<lparr>heap := h\<rparr>))))"

text \<open>The whole call.\<close>

definition SingingGenerate_call ::
  "('a, 'r) SingingGenerate \<Rightarrow> ('a, 'r) call_args \<Rightarrow> 'a state
   \<Rightarrow> (error + 'a output_dict) \<times> 'a state" where
  "SingingGenerate_call self a s =
     (case run_model self a s of
        (Inl e, s1) \<Rightarrow> (Inl e, s1)
      | (Inr output_dict, s1) \<Rightarrow> post_process self (kwargs a) output_dict s1)"

subsection \<open>The batch runner \<open>inference\<close>, lines 418 to 656\<close>

text \<open>What the loop asks of a tensor: \<open>len(v)\<close>, \<open>v[0]\<close> and \<open>v.size(0)\<close>.\<close>

definition tensor_len :: "'a tensor \<Rightarrow> error + nat" where
  "tensor_len v = (case shape v of [] \<Rightarrow> Inl (TypeError ''len() of a 0-d tensor'') | n # r \<Rightarrow> Inr n)"

definition index0 :: "'a tensor \<Rightarrow> error + 'a tensor" where
  "index0 v =
     (case shape v of
        [] \<Rightarrow> Inl (IndexError ''invalid index of a 0-dim tensor'')
      | n # r \<Rightarrow>
          (if n = 0 then Inl (IndexError ''index 0 is out of bounds for dimension 0 with size 0'')
           else Inr (Tensor r (take (prod_list r) (elems v)))))"

definition size0 :: "'a tensor \<Rightarrow> error + nat" where
  "size0 v = (case shape v of [] \<Rightarrow> Inl (IndexError ''Dimension specified as 0 but tensor has no dimensions'') | n # r \<Rightarrow> Inr n)"

definition endswith :: "string \<Rightarrow> string \<Rightarrow> bool" where
  "endswith str suffix =
     (length suffix \<le> length str \<and> drop (length str - length suffix) str = suffix)"

text \<open>
  Line 529, \<open>{k: v[0] for k, v in batch.items() if not k.endswith("_lengths")}\<close>.
\<close>

fun single_sequence :: "(string \<times> 'a tensor) list \<Rightarrow> error + (string \<times> 'a tensor) list" where
  "single_sequence [] = Inr []"
| "single_sequence ((k, v) # kvs) =
     (if endswith k ''_lengths'' then single_sequence kvs
      else
        (case index0 v of
           Inl e \<Rightarrow> Inl e
         | Inr x \<Rightarrow>
             (case single_sequence kvs of
                Inl e \<Rightarrow> Inl e
              | Inr rest \<Rightarrow> Inr ((k, x) # rest))))"

text \<open>
  Line 537 calls \<open>singingGenerate\<close> with the entries of the batch as keyword
  arguments and with \<open>use_singomd=use_singomd\<close>: the keys of the batch that name a
  parameter bind it, the others go to \<open>**kwargs\<close>. The call raises TypeError
  when the batch has no \<open>text\<close>, when it has a key \<open>use_singomd\<close> of its own, and when
  it has a key \<open>decode_conf\<close> (a tensor is not the dictionary that parameter is declared
  to be).
\<close>

definition bind_args :: "(string \<times> 'a tensor) list \<Rightarrow> bool \<Rightarrow> error + ('a, 'r) call_args" where
  "bind_args batch use_singomd =
     (let kw = map_of batch in
      if kw ''use_singomd'' \<noteq> None
        then Inl (TypeError ''got multiple values for keyword argument use_singomd'')
      else if kw ''decode_conf'' \<noteq> None
        then Inl (TypeError ''argument decode_conf is not a dict or None'')
      else
        (case kw ''text'' of
           None \<Rightarrow> Inl (TypeError ''missing 1 required positional argument: text'')
         | Some t \<Rightarrow>
             Inr \<lparr>text_arg = TextTensor t,
                  singing = kw ''singing'',
                  label = kw ''label'',
                  midi = kw ''midi'',
                  duration_phn = kw ''duration_phn'',
                  duration_ruled_phn = kw ''duration_ruled_phn'',
                  duration_syb = kw ''duration_syb'',
                  phn_cnt = kw ''phn_cnt'',
                  slur = kw ''slur'',
                  pitch = kw ''pitch'',
                  energy = kw ''energy'',
                  spembs = kw ''spembs'',
                  sids = kw ''sids'',
                  lids = kw ''lids'',
                  discrete_token = kw ''discrete_token'',
                  decode_conf_arg = None,
                  kwargs = (\<lambda>k. if List.member slot_names k then None
                                 else map_option KwTensor (kw k))
                           (''use_singomd'' \<mapsto> KwBool use_singomd)\<rparr>))"

text \<open>
  The directories under the output directory are named by their relative paths.
  \<open>mkdir(parents=True, exist_ok=True)\<close> never fails on an existing directory;
  \<open>shutil.rmtree\<close> raises when there is none. The channel an utterance is written to is
  named by its directory.
\<close>

definition mkdir :: "string \<Rightarrow> 'a state \<Rightarrow> 'a state" where
  "mkdir d s = s\<lparr>dirs := insert d (dirs s)\<rparr>"

definition rmtree :: "string \<Rightarrow> 'a state \<Rightarrow> (error + unit) \<times> 'a state" where
  "rmtree d s =
     (if d \<in> dirs s then (Inr (), s\<lparr>dirs := dirs s - {d}\<rparr>)
      else (Inl (FileNotFoundError d), s))"

definition write_to :: "string \<Rightarrow> string \<Rightarrow> 'a state \<Rightarrow> 'a state" where
  "write_to channel key s = s\<lparr>received := received s @ [(channel, key)]\<rparr>"

text \<open>Lines 491 to 498.\<close>

definition mkdirs :: "'a state \<Rightarrow> 'a state" where
  "mkdirs s =
     mkdir ''focus_rates'' (mkdir ''durations'' (mkdir ''probs'' (mkdir ''att_ws''
       (mkdir ''wav'' (mkdir ''speech_shape'' (mkdir ''denorm'' (mkdir ''norm'' s)))))))"

text \<open>
  Lines 540 to 640, what one utterance writes. With generated features the normalised
  features and the shape line are written, and the denormalised features when present;
  without them \<open>output_dict["wav"]\<close> is read for the log line (KeyError when missing,
  AttributeError on \<open>None\<close>). Then the duration line, the focus rate line, the attention
  plot (the weights must have 2 or 4 dimensions), the probability plot and the waveform
  are written, each when its field is not \<open>None\<close>. The elapsed time of the log lines and
  the drawing of the plots are not modelled.
\<close>

definition write_features ::
  "string \<Rightarrow> 'a output_dict \<Rightarrow> 'a state \<Rightarrow> (error + unit) \<times> 'a state" where
  "write_features key output_dict s =
     (case dict_get output_dict ''feat_gen'' of
        Some feat_gen \<Rightarrow>
          (case size0 feat_gen of
             Inl e \<Rightarrow> (Inl e, s)
           | Inr n \<Rightarrow>
               (let s1 = write_to ''speech_shape'' key (write_to ''norm'' key s)
                in (Inr (),
                    if dict_get output_dict ''feat_gen_denorm'' \<noteq> None
                    then write_to ''denorm'' key s1 else s1)))
      | None \<Rightarrow>
          (case dict_getitem output_dict ''wav'' of
             Inl e \<Rightarrow> (Inl e, s)
           | Inr None \<Rightarrow> (Inl (AttributeError ''size''), s)
           | Inr (Some wav) \<Rightarrow>
               (case size0 wav of Inl e \<Rightarrow> (Inl e, s) | Inr n \<Rightarrow> (Inr (), s))))"

definition write_outputs ::
  "string \<Rightarrow> 'a output_dict \<Rightarrow> 'a state \<Rightarrow> (error + unit) \<times> 'a state" where
  "write_outputs key output_dict s =
     (case write_features key output_dict s of
        (Inl e, s1) \<Rightarrow> (Inl e, s1)
      | (Inr u, s1) \<Rightarrow>
          (let s2 = (if dict_get output_dict ''duration'' \<noteq> None
                     then write_to ''durations'' key s1 else s1);
               s3 = (if dict_get output_dict ''focus_rate'' \<noteq> None
                     then write_to ''focus_rates'' key s2 else s2)
           in (case (case dict_get output_dict ''att_w'' of
                       None \<Rightarrow> Inr s3
                     | Some att_w \<Rightarrow>
                         (if length (shape att_w) = 2 \<or> length (shape att_w) = 4
                          then Inr (write_to ''att_ws'' key s3)
                          else Inl (RuntimeError ''Must be 2 or 4 dimension''))) of
                 Inl e \<Rightarrow> (Inl e, s3)
               | Inr s4 \<Rightarrow>
                   (let s5 = (if dict_get output_dict ''prob'' \<noteq> None
                              then write_to ''probs'' key s4 else s4)
                    in (Inr (),
                        if dict_get output_dict ''wav'' \<noteq> None
                        then write_to ''wav'' key s5 else s5)))))"

text \<open>
  Lines 522 to 640, the body of the loop for one pair of the loader. The two
  \<open>isinstance\<close> assertions hold by the types. \<open>next(iter(batch.values()))\<close> raises
  StopIteration on an empty batch, and \<open>keys[0]\<close> raises IndexError on an empty list.
\<close>

definition utterance ::
  "('a, 'r) SingingGenerate \<Rightarrow> bool \<Rightarrow> 'a item \<Rightarrow> 'a state
   \<Rightarrow> (error + 'a output_dict) \<times> 'a state" where
  "utterance singingGenerate use_singomd it s =
     (case snd it of
        [] \<Rightarrow> (Inl StopIteration, s)
      | kv # kvs \<Rightarrow>
          (case tensor_len (snd kv) of
             Inl e \<Rightarrow> (Inl e, s)
           | Inr bs \<Rightarrow>
               (if bs \<noteq> 1 then (Inl (AssertionError ''_bs''), s)
                else
                  (case single_sequence (snd it) of
                     Inl e \<Rightarrow> (Inl e, s)
                   | Inr batch \<Rightarrow>
                       (case fst it of
                          [] \<Rightarrow> (Inl (IndexError ''list index out of range''), s)
                        | key # ks \<Rightarrow>
                            (case bind_args batch use_singomd of
                               Inl e \<Rightarrow> (Inl e, s)
                             | Inr a \<Rightarrow>
                                 (case SingingGenerate_call singingGenerate a s of
                                    (Inl e, s1) \<Rightarrow> (Inl e, s1)
                                  | (Inr output_dict, s1) \<Rightarrow>
                                      (case (case batch of
                                               [] \<Rightarrow> Inl StopIteration
                                             | b # rest \<Rightarrow> size0 (snd b)) of
                                         Inl e \<Rightarrow> (Inl e, s1)
                                       | Inr insize \<Rightarrow>
                                           (case write_outputs key output_dict s1 of
                                              (Inl e, s2) \<Rightarrow> (Inl e, s2)
                                            | (Inr u, s2) \<Rightarrow> (Inr output_dict, s2))))))))))"

text \<open>
  The \<open>for\<close> loop of line 521. The variable \<open>output_dict\<close> is unbound until the first
  round assigns it: \<open>None\<close> here. An exception leaves the loop and the function.
\<close>

fun loop ::
  "('a, 'r) SingingGenerate \<Rightarrow> bool \<Rightarrow> (error + 'a item) list \<Rightarrow> 'a output_dict option
   \<Rightarrow> 'a state \<Rightarrow> (error + 'a output_dict option) \<times> 'a state" where
  "loop singingGenerate use_singomd [] output_dict s = (Inr output_dict, s)"
| "loop singingGenerate use_singomd (Inl e # rest) output_dict s = (Inl e, s)"
| "loop singingGenerate use_singomd (Inr it # rest) output_dict s =
     (case utterance singingGenerate use_singomd it s of
        (Inl e, s1) \<Rightarrow> (Inl e, s1)
      | (Inr od, s1) \<Rightarrow> loop singingGenerate use_singomd rest (Some od) s1)"

text \<open>
  Lines 642 to 656, after the loop:
  \<^verbatim>\<open>
  # remove files if those are not included in output dict
  if output_dict.get("feat_gen") is None:
      shutil.rmtree(output_dir / "norm")
  ...
  \<close>
  Reading the unbound variable raises UnboundLocalError.
\<close>

definition prune_list :: "(string \<times> string) list" where
  "prune_list =
     [(''feat_gen'', ''norm''), (''feat_gen_denorm'', ''denorm''), (''att_w'', ''att_ws''),
      (''duration'', ''durations''), (''focus_rate'', ''focus_rates''), (''prob'', ''probs''),
      (''wav'', ''wav'')]"

fun prune :: "'a output_dict \<Rightarrow> (string \<times> string) list \<Rightarrow> 'a state \<Rightarrow> (error + unit) \<times> 'a state" where
  "prune output_dict [] s = (Inr (), s)"
| "prune output_dict ((field, d) # rest) s =
     (if dict_get output_dict field = None then
        (case rmtree d s of
           (Inl e, s1) \<Rightarrow> (Inl e, s1)
         | (Inr u, s1) \<Rightarrow> prune output_dict rest s1)
      else prune output_dict rest s)"

definition finalize :: "'a output_dict option \<Rightarrow> 'a state \<Rightarrow> (error + unit) \<times> 'a state" where
  "finalize output_dict s =
     (case output_dict of
        None \<Rightarrow> (Inl (UnboundLocalError ''output_dict''), s)
      | Some od \<Rightarrow> prune od prune_list s)"

text \<open>
  The runner. Its parameters are those of the source that the modelled state depends on;
  the constructor's other parameters take the defaults of its signature. The loader is
  built by \<open>SVSTask\<close> whatever the task. Logging, the random seed and the opening of
  the writers' files change nothing of the state: the two tests come first, then the
  constructor, the loader, the eight directories, the loop and the pruning.
\<close>

definition inference ::
  "('a, 'r) env \<Rightarrow> int \<Rightarrow> int \<Rightarrow> bool \<Rightarrow> real \<Rightarrow> real \<Rightarrow> string option \<Rightarrow> int \<Rightarrow> string \<Rightarrow> string
   \<Rightarrow> bool \<Rightarrow> 'a state \<Rightarrow> (error + unit) \<times> 'a state" where
  "inference env batch_size ngpu use_teacher_forcing noise_scale noise_scale_dur
     vocoder_checkpoint discrete_token_layers' mix_type' svs_task use_singomd s =
     (if batch_size > 1
        then (Inl (NotImplementedError ''batch decoding is not implemented''), s)
      else if ngpu > 1
        then (Inl (NotImplementedError ''only single GPU decoding is supported''), s)
      else
        (case SingingGenerate_init env 0.5 0.0 10.0 use_teacher_forcing False False 2 4
                noise_scale noise_scale_dur vocoder_checkpoint discrete_token_layers'
                mix_type' False svs_task s of
           (Inl e, s1) \<Rightarrow> (Inl e, s1)
         | (Inr singingGenerate, s1) \<Rightarrow>
             (case build_streaming_iterator (SVSTask env) of
                Inl e \<Rightarrow> (Inl e, log_call Build_loader s1)
              | Inr loader \<Rightarrow>
                  (case loop singingGenerate use_singomd loader None
                          (mkdirs (log_call Build_loader s1)) of
                     (Inl e, s2) \<Rightarrow> (Inl e, s2)
                   | (Inr output_dict, s2) \<Rightarrow> finalize output_dict s2))))"

subsection \<open>The round trip of the specification\<close>

text \<open>
  The specification's \<open>frame_reshape(seq_reshape(x))\<close>: the reshaping of line 296 with
  \<open>mix_type = "sequence"\<close>, then that of line 294 with \<open>mix_type = "frame"\<close> on its
  result.
\<close>

definition seq_then_frame :: "int \<Rightarrow> 'a tensor \<Rightarrow> error + 'a feat" where
  "seq_then_frame L x =
     (case mix_reshape L ''sequence'' (Feat x) of
        Inl e \<Rightarrow> Inl e
      | Inr y \<Rightarrow> mix_reshape L ''frame'' y)"

subsection \<open>Observing a trace\<close>

text \<open>The calls of the vocoder and of the acoustic model in a trace, in order.\<close>

fun vocoder_calls :: "'a event list \<Rightarrow> ('a feat \<times> 'a tensor option) list" where
  "vocoder_calls [] = []"
| "vocoder_calls (Vocoder_call f p # es) = (f, p) # vocoder_calls es"
| "vocoder_calls (e # es) = vocoder_calls es"

fun model_calls :: "'a event list \<Rightarrow> ('a batch \<times> conf) list" where
  "model_calls [] = []"
| "model_calls (Model_call b c # es) = (b, c) # model_calls es"
| "model_calls (e # es) = model_calls es"

subsection \<open>Stub collaborators\<close>

text \<open>
  Collaborators for concrete runs: an acoustic model that returns a given dictionary, a
  vocoder that returns a fixed waveform, a duration calculator that returns fixed
  durations and a fixed focus rate.
\<close>

definition stub_svs :: svs_model where
  "stub_svs = \<lparr>svs_class = singing_tacotron, spks = None, langs = None, spk_embed_dim = None\<rparr>"

definition stub_vocoder :: "int vocoder_fn" where
  "stub_vocoder input_feat p = Inr (Tensor [4] [1, 2, 3, 4])"

definition stub_duration_calculator :: "int tensor \<Rightarrow> error + int tensor \<times> int tensor" where
  "stub_duration_calculator att_w = Inr (Tensor [3] [1, 1, 0], Tensor [] [1])"

definition stub_preprocess :: "(int, unit) preprocess" where
  "stub_preprocess uid infer_data = Inr Map.empty"

definition stub_self ::
  "int output_dict \<Rightarrow> int vocoder_fn option \<Rightarrow> int \<Rightarrow> string \<Rightarrow> (int, unit) SingingGenerate" where
  "stub_self od voc layers mix =
     \<lparr>model = \<lparr>svs = stub_svs, model_inference = (\<lambda>batch cfg. Inr od)\<rparr>,
      preprocess_fn = stub_preprocess,
      duration_calculator = stub_duration_calculator,
      vocoder = voc,
      prefer_normalized_feats = False,
      discrete_token_layers = layers,
      mix_type = mix,
      decode_conf = 0\<rparr>"

definition stub_state :: "int state" where
  "stub_state =
     \<lparr>heap = [[''use_teacher_forcing'' \<mapsto> VBool False]], trace = [], dirs = {}, received = []\<rparr>"

definition stub_args :: "(int, unit) call_args" where
  "stub_args =
     \<lparr>text_arg = TextTensor (Tensor [3] [7, 8, 9]),
      singing = None, label = None, midi = None, duration_phn = None,
      duration_ruled_phn = None, duration_syb = None, phn_cnt = None, slur = None,
      pitch = None, energy = None, spembs = None, sids = None, lids = None,
      discrete_token = None, decode_conf_arg = None, kwargs = Map.empty\<rparr>"

text \<open>The state after the stub model has been called with the stub arguments.\<close>

definition stub_called :: "int state" where
  "stub_called =
     log_call (Model_call [''text'' \<mapsto> Tensor [3] [7, 8, 9]] [''use_teacher_forcing'' \<mapsto> VBool False])
       stub_state"

text \<open>
  What an attention-based model returns (features, stop probabilities and attention
  weights), what a model that produces the waveform itself returns, and a flat sequence
  of tokens.
\<close>

definition attention_output :: "int output_dict" where
  "attention_output =
     [''feat_gen'' \<mapsto> Some (Tensor [2, 1] [5, 6]),
      ''prob'' \<mapsto> Some (Tensor [2] [0, 1]),
      ''att_w'' \<mapsto> Some (Tensor [2, 3] [1, 0, 0, 0, 1, 0])]"

definition wav_feat_output :: "int output_dict" where
  "wav_feat_output =
     [''wav'' \<mapsto> Some (Tensor [2] [9, 9]), ''feat_gen'' \<mapsto> Some (Tensor [2, 1] [5, 6])]"

definition wav_att_output :: "int output_dict" where
  "wav_att_output =
     [''wav'' \<mapsto> Some (Tensor [2] [9, 9]), ''att_w'' \<mapsto> Some (Tensor [2, 3] [1, 0, 0, 0, 1, 0])]"

definition wav_output :: "int output_dict" where
  "wav_output = [''wav'' \<mapsto> Some (Tensor [2] [9, 9])]"

definition token_output :: "int output_dict" where
  "token_output = [''feat_gen'' \<mapsto> Some (Tensor [4] [0, 1, 2, 3])]"

text \<open>An orchestrator whose acoustic model defines a space of four speakers.\<close>

definition speaker_self :: "(int, unit) SingingGenerate" where
  "speaker_self =
     (stub_self attention_output None 1 ''frame'')
       \<lparr>model := \<lparr>svs = stub_svs\<lparr>spks := Some 4\<rparr>,
                  model_inference = (\<lambda>batch cfg. Inr attention_output)\<rparr>\<rparr>"


text \<open>
  The specification's merge: the override wins key by key and the keys of the base that
  it does not give are kept; without an override the base is passed as it is.
\<close>

definition merged_conf :: "conf \<Rightarrow> conf option \<Rightarrow> conf" where
  "merged_conf base override =
     (case override of
        None \<Rightarrow> base
      | Some d \<Rightarrow> (\<lambda>k. case d k of None \<Rightarrow> base k | Some v \<Rightarrow> Some v))"

text \<open>Arguments with an override of the decoding configuration, and with \<open>use_singomd\<close>.\<close>

definition override_args :: "(int, unit) call_args" where
  "override_args =
     stub_args\<lparr>decode_conf_arg :=
       Some [''use_teacher_forcing'' \<mapsto> VBool True, ''noise_scale'' \<mapsto> VFloat 0.5]\<rparr>"

definition singomd_args :: "(int, unit) call_args" where
  "singomd_args = stub_args\<lparr>kwargs := [''use_singomd'' \<mapsto> KwBool True]\<rparr>"


text \<open>
  An environment for concrete runs: both task classes build a model that answers a batch
  with \<open>f\<close>, the stub vocoder and the given loader. A run starts in the empty state.
\<close>

definition stub_task ::
  "(int batch \<Rightarrow> int output_dict) \<Rightarrow> (error + int item) list \<Rightarrow> (int, unit) task_class" where
  "stub_task f loader =
     \<lparr>build_model_from_file =
        Inr \<lparr>svs = stub_svs, model_inference = (\<lambda>batch cfg. Inr (f batch))\<rparr>,
      build_preprocess_fn = stub_preprocess,
      build_vocoder_from_file = Inr stub_vocoder,
      build_streaming_iterator = Inr loader\<rparr>"

definition stub_env ::
  "(int batch \<Rightarrow> int output_dict) \<Rightarrow> (error + int item) list \<Rightarrow> (int, unit) env" where
  "stub_env f loader =
     \<lparr>SVSTask = stub_task f loader, GANSVSTask = stub_task f loader,
      DurationCalculator = stub_duration_calculator\<rparr>"

definition empty_state :: "int state" where
  "empty_state = \<lparr>heap = [], trace = [], dirs = {}, received = []\<rparr>"

text \<open>
  A loader of two utterances and a model that returns stop probabilities for the first
  one only.
\<close>

definition two_utterances :: "(error + int item) list" where
  "two_utterances =
     [Inr ([''utt1''], [(''text'', Tensor [1, 3] [7, 8, 9]), (''text_lengths'', Tensor [1] [3])]),
      Inr ([''utt2''], [(''text'', Tensor [1, 3] [1, 2, 3]), (''text_lengths'', Tensor [1] [3])])]"

definition varying_model :: "int batch \<Rightarrow> int output_dict" where
  "varying_model batch =
     (if batch ''text'' = Some (Tensor [3] [7, 8, 9])
      then [''feat_gen'' \<mapsto> Some (Tensor [2, 1] [5, 6]), ''prob'' \<mapsto> Some (Tensor [2] [0, 1])]
      else [''feat_gen'' \<mapsto> Some (Tensor [2, 1] [5, 6])])"

section \<open>Properties\<close>

subsection \<open>Reshaping of multi-layer tokens\<close>

lemma length_concat_rows:
  "(\<And>i. i < T \<Longrightarrow> length (f i) = L) \<Longrightarrow> length (concat (map f [0..<T])) = T * L"
  by (induction T) simp_all

lemma nth_concat_rows:
  "(\<And>i. i < T \<Longrightarrow> length (f i) = L) \<Longrightarrow> t < T \<Longrightarrow> l < L \<Longrightarrow>
   concat (map f [0..<T]) ! (t * L + l) = f t ! l"
proof (induction T)
  case 0
  then show ?case by simp
next
  case (Suc T)
  have len: "length (concat (map f [0..<T])) = T * L"
    using Suc.prems(1) by (simp add: length_concat_rows)
  show ?case
  proof (cases "t < T")
    case True
    then have "Suc t * L \<le> T * L" by (simp add: Suc_leI del: mult_Suc)
    then have "t * L + l < T * L" using Suc.prems(3) by simp
    with True Suc show ?thesis by (simp add: nth_append len)
  next
    case False
    then have "t = T" using Suc.prems(2) by simp
    then show ?thesis by (simp add: nth_append len)
  qed
qed

lemma frame_flat:
  assumes "1 < L" and "length xs = T * L"
  shows "mix_reshape (int L) ''frame'' (Feat (Tensor s xs)) = Inr (Feat (Tensor [T, L] xs))"
  using assms by (simp add: mix_reshape_def view_rows_def numel_def)

lemma sequence_flat:
  assumes "1 < L" and "length xs = T * L"
  shows "mix_reshape (int L) ''sequence'' (Feat (Tensor s xs)) =
         Inr (Feat (Tensor [T, L]
           (concat (map (\<lambda>t. map (\<lambda>l. xs ! (l * T + t)) [0..<L]) [0..<T]))))"
  using assms by (simp add: mix_reshape_def view_cols_def numel_def)

text \<open>
  C8, as stated, fails: for the flat tensor \<open>[0, 1, 2, 3]\<close> with two layers the sequence
  reshape followed by the frame reshape gives \<open>[[0, 2], [1, 3]]\<close>, which is not the
  tensor in \<open>[T, L]\<close> form, \<open>[[0, 1], [2, 3]]\<close>.
\<close>

theorem mix_reshape_round_trip_counterexample:
  "seq_then_frame 2 (Tensor [4] [0, 1, 2, 3 :: int]) = Inr (Feat (Tensor [2, 2] [0, 2, 1, 3]))
   \<and> mix_reshape 2 ''frame'' (Feat (Tensor [4] [0, 1, 2, 3 :: int]))
       = Inr (Feat (Tensor [2, 2] [0, 1, 2, 3]))
   \<and> seq_then_frame 2 (Tensor [4] [0, 1, 2, 3 :: int])
       \<noteq> mix_reshape 2 ''frame'' (Feat (Tensor [4] [0, 1, 2, 3]))"
  by code_simp

text \<open>
  C8, amended: for a flat tensor of \<open>T * L\<close> elements and more than one layer, the frame
  reshape gives the shape \<open>[T, L]\<close> with the elements in their order (element \<open>(t, l)\<close>
  is element \<open>t * L + l\<close> of the input); the sequence reshape gives the shape \<open>[T, L]\<close>
  with element \<open>(t, l)\<close> equal to element \<open>l * T + t\<close> of the input; and the frame
  reshape applied to the result of the sequence reshape returns that result unchanged.
\<close>

theorem mix_reshape_laws:
  assumes "1 < L" and "length xs = T * L"
  shows "mix_reshape (int L) ''frame'' (Feat (Tensor [T * L] xs)) = Inr (Feat (Tensor [T, L] xs))
    \<and> (\<forall>t<T. \<forall>l<L. at2 (Tensor [T, L] xs) t l = xs ! (t * L + l))
    \<and> (\<exists>ys. mix_reshape (int L) ''sequence'' (Feat (Tensor [T * L] xs))
                = Inr (Feat (Tensor [T, L] ys))
          \<and> length ys = T * L
          \<and> (\<forall>t<T. \<forall>l<L. at2 (Tensor [T, L] ys) t l = xs ! (l * T + t))
          \<and> seq_then_frame (int L) (Tensor [T * L] xs) = Inr (Feat (Tensor [T, L] ys)))"
proof -
  let ?ys = "concat (map (\<lambda>t. map (\<lambda>l. xs ! (l * T + t)) [0..<L]) [0..<T])"
  have len: "length ?ys = T * L"
    by (rule length_concat_rows) simp
  have at: "\<forall>t<T. \<forall>l<L. at2 (Tensor [T, L] ?ys) t l = xs ! (l * T + t)"
  proof (intro allI impI)
    fix t l assume "t < T" "l < L"
    then have "?ys ! (t * L + l) = map (\<lambda>l. xs ! (l * T + t)) [0..<L] ! l"
      by (intro nth_concat_rows) simp_all
    then show "at2 (Tensor [T, L] ?ys) t l = xs ! (l * T + t)"
      using \<open>l < L\<close> by (simp add: at2_def)
  qed
  have fr: "mix_reshape (int L) ''frame'' (Feat (Tensor [T, L] ?ys))
              = Inr (Feat (Tensor [T, L] ?ys))"
    using assms(1) len by (rule frame_flat)
  have sq: "mix_reshape (int L) ''sequence'' (Feat (Tensor [T * L] xs))
              = Inr (Feat (Tensor [T, L] ?ys))"
    using assms by (rule sequence_flat)
  have rt: "seq_then_frame (int L) (Tensor [T * L] xs) = Inr (Feat (Tensor [T, L] ?ys))"
    by (simp add: seq_then_frame_def sq fr)
  have fl: "\<forall>t<T. \<forall>l<L. at2 (Tensor [T, L] xs) t l = xs ! (t * L + l)"
    by (simp add: at2_def)
  from sq len at rt fl frame_flat[OF assms] show ?thesis by blast
qed

theorem mix_reshape_laws_witness:
  "(1::nat) < 2 \<and> length (replicate 100 (0::int)) = 50 * 2
   \<and> mix_reshape 2 ''frame'' (Feat (Tensor [100] (replicate 100 (0::int))))
       = Inr (Feat (Tensor [50, 2] (replicate 100 0)))"
  using mix_reshape_laws[of 2 "replicate 100 (0::int)" 50] by simp

subsection \<open>The synthesis call\<close>

lemma vocoder_calls_append [simp]:
  "vocoder_calls (xs @ ys) = vocoder_calls xs @ vocoder_calls ys"
  by (induction xs rule: vocoder_calls.induct) simp_all

lemma model_calls_append [simp]:
  "model_calls (xs @ ys) = model_calls xs @ model_calls ys"
  by (induction xs rule: model_calls.induct) simp_all

lemma log_call_fields [simp]:
  "heap (log_call e s) = heap s" "dirs (log_call e s) = dirs s" "received (log_call e s) = received s"
  "trace (log_call e s) = trace s @ [e]"
  by (simp_all add: log_call_def)

lemma prepare_batch_state:
  assumes "prepare_batch self a s = (r, s')"
  shows "heap s' = heap s \<and> dirs s' = dirs s \<and> received s' = received s
    \<and> model_calls (trace s') = model_calls (trace s)
    \<and> vocoder_calls (trace s') = vocoder_calls (trace s)"
  using assms
  by (auto simp: prepare_batch_def split: text_input.splits sum.splits option.splits)

lemma call_inference_state:
  assumes "call_inference self b c s = (r, s')"
  shows "heap s' = heap s \<and> dirs s' = dirs s \<and> received s' = received s
    \<and> vocoder_calls (trace s') = vocoder_calls (trace s)
    \<and> (model_calls (trace s') = model_calls (trace s)
         \<or> model_calls (trace s') = model_calls (trace s) @ [(b, c)])
    \<and> (\<forall>od. r = Inr od \<longrightarrow> model_calls (trace s') = model_calls (trace s) @ [(b, c)])"
  using assms
  by (auto simp: call_inference_def split: if_splits)

lemma apply_vocoder_state:
  assumes "apply_vocoder self voc kw od s = (r, s')"
  shows "heap s' = heap s \<and> dirs s' = dirs s \<and> received s' = received s
    \<and> model_calls (trace s') = model_calls (trace s)"
  using assms
  by (auto simp: apply_vocoder_def split: sum.splits option.splits if_splits feat.splits)

lemma post_process_state:
  assumes "post_process self kw od s = (r, s')"
  shows "heap s' = heap s \<and> dirs s' = dirs s \<and> received s' = received s
    \<and> model_calls (trace s') = model_calls (trace s)"
  using assms apply_vocoder_state
  by (fastforce simp: post_process_def split: sum.splits option.splits)

lemmas call_defs = SingingGenerate_call_def run_model_def check_inputs_def use_sids_def use_lids_def
  use_spembs_def prepare_batch_def assemble_def update_if_def select_cfg_def call_inference_def
  slot_names_def post_process_def apply_vocoder_def dict_get_def dict_getitem_def log_call_def
  dict_copy_def dict_update_def mix_reshape_def singomd_step_def

lemmas stub_defs = stub_self_def stub_state_def stub_args_def stub_svs_def stub_vocoder_def
  stub_duration_calculator_def stub_preprocess_def attention_output_def wav_feat_output_def
  wav_att_output_def wav_output_def token_output_def stub_called_def speaker_self_def

lemma run_model_stub:
  "run_model (stub_self od voc layers mix) stub_args stub_state = (Inr od, stub_called)"
  by (simp add: call_defs stub_defs)






text \<open>
  C3: when the model defines a speaker-id space and \<open>sids\<close> is \<open>None\<close>, or a language
  space and \<open>lids\<close> is \<open>None\<close>, or an embedding dimension and \<open>spembs\<close> is \<open>None\<close>, the
  call raises RuntimeError and leaves the state as it was: the trace has no new call, so
  neither the preprocessing function nor the acoustic model has been entered.
\<close>

theorem missing_slot_raises_before_model:
  assumes "(spks (svs (model self)) \<noteq> None \<and> sids a = None)
         \<or> (langs (svs (model self)) \<noteq> None \<and> lids a = None)
         \<or> (spk_embed_dim (svs (model self)) \<noteq> None \<and> spembs a = None)"
  shows "\<exists>msg. SingingGenerate_call self a s = (Inl (RuntimeError msg), s)"
  using assms
  by (auto simp: SingingGenerate_call_def run_model_def check_inputs_def use_sids_def
      use_lids_def use_spembs_def)

theorem missing_slot_raises_before_model_witness:
  "spks (svs (model speaker_self)) \<noteq> None \<and> sids stub_args = None
   \<and> (\<exists>msg. SingingGenerate_call speaker_self stub_args stub_state
               = (Inl (RuntimeError msg), stub_state))"
proof -
  have h: "spks (svs (model speaker_self)) \<noteq> None \<and> sids stub_args = None"
    by (simp add: speaker_self_def stub_svs_def stub_args_def)
  then have "(spks (svs (model speaker_self)) \<noteq> None \<and> sids stub_args = None)
         \<or> (langs (svs (model speaker_self)) \<noteq> None \<and> lids stub_args = None)
         \<or> (spk_embed_dim (svs (model speaker_self)) \<noteq> None \<and> spembs stub_args = None)"
    by blast
  from missing_slot_raises_before_model[OF this, of stub_state] h show ?thesis by blast
qed

text \<open>
  C1, the code at a failing input: the model returns features, stop probabilities and
  attention weights but no waveform, and a vocoder is configured. The call returns the
  durations and the focus rate, the vocoder is never called and the output has no \<open>wav\<close>.
\<close>

theorem attention_output_skips_vocoder:
  "SingingGenerate_call (stub_self attention_output (Some stub_vocoder) 1 ''frame'') stub_args stub_state
   = (Inr (attention_output(''duration'' \<mapsto> Some (Tensor [3] [1, 1, 0]),
                            ''focus_rate'' \<mapsto> Some (Tensor [] [1]))),
      log_call (Duration_call (Tensor [2, 3] [1, 0, 0, 0, 1, 0])) stub_called)
   \<and> vocoder_calls (trace (snd (SingingGenerate_call
        (stub_self attention_output (Some stub_vocoder) 1 ''frame'') stub_args stub_state))) = []
   \<and> dict_get (attention_output(''duration'' \<mapsto> Some (Tensor [3] [1, 1, 0]),
                            ''focus_rate'' \<mapsto> Some (Tensor [] [1]))) ''wav'' = None"
  by (simp add: call_defs stub_defs)









subsection \<open>The decoding configuration of a call\<close>

lemma select_cfg_heap:
  assumes "decode_conf self < length h" and "select_cfg self ov h = (cfg, h')"
  shows "take (length h) h' = h
    \<and> h' ! cfg = (case ov of None \<Rightarrow> h ! decode_conf self
                  | Some d \<Rightarrow> (\<lambda>k. case d k of None \<Rightarrow> (h ! decode_conf self) k | Some v \<Rightarrow> Some v))"
proof (cases ov)
  case None
  with assms show ?thesis by (simp add: select_cfg_def)
next
  case (Some d)
  with assms(2) have c: "cfg = length h" and h': "h' = h @ [(h ! decode_conf self) ++ d]"
    by (auto simp: select_cfg_def dict_copy_def dict_update_def)
  have "(h ! decode_conf self) ++ d = (\<lambda>k. case d k of None \<Rightarrow> (h ! decode_conf self) k | Some v \<Rightarrow> Some v)"
    by (simp add: map_add_def)
  with c h' Some show ?thesis by simp
qed

lemma run_model_conf:
  assumes dc: "decode_conf self < length (heap s)"
    and rm: "run_model self a s = (r, s1)"
  shows "take (length (heap s)) (heap s1) = heap s
    \<and> (model_calls (trace s1) = model_calls (trace s)
        \<or> (\<exists>b. model_calls (trace s1) = model_calls (trace s) @
              [(b, case decode_conf_arg a of None \<Rightarrow> heap s ! decode_conf self
                   | Some d \<Rightarrow> (\<lambda>k. case d k of None \<Rightarrow> (heap s ! decode_conf self) k
                                               | Some v \<Rightarrow> Some v))]))
    \<and> ((\<exists>od. r = Inr od) \<longrightarrow>
         (\<exists>b. model_calls (trace s1) = model_calls (trace s) @
              [(b, case decode_conf_arg a of None \<Rightarrow> heap s ! decode_conf self
                   | Some d \<Rightarrow> (\<lambda>k. case d k of None \<Rightarrow> (heap s ! decode_conf self) k
                                               | Some v \<Rightarrow> Some v))]))"
proof (cases "check_inputs self a")
  case (Some e)
  with rm show ?thesis by (auto simp: run_model_def)
next
  case None
  obtain rb sb where pb: "prepare_batch self a s = (rb, sb)" by (cases "prepare_batch self a s")
  note pbs = prepare_batch_state[OF pb]
  show ?thesis
  proof (cases rb)
    case (Inl e)
    with rm None pb pbs show ?thesis by (auto simp: run_model_def)
  next
    case (Inr b)
    obtain cfg h where sc: "select_cfg self (decode_conf_arg a) (heap sb) = (cfg, h)"
      by (cases "select_cfg self (decode_conf_arg a) (heap sb)")
    from pbs have hs: "heap sb = heap s" by simp
    from dc hs have dc': "decode_conf self < length (heap sb)" by simp
    note sh = select_cfg_heap[OF dc' sc, unfolded hs]
    from rm None pb Inr sc
    have ci: "call_inference self b (h ! cfg) (sb\<lparr>heap := h\<rparr>) = (r, s1)"
      by (simp add: run_model_def)
    note cis = call_inference_state[OF ci]
    from cis have hp: "heap s1 = h" by simp
    from cis pbs have mc: "model_calls (trace s1) = model_calls (trace s)
         \<or> model_calls (trace s1) = model_calls (trace s) @ [(b, h ! cfg)]" by simp
    from cis pbs have mr: "\<forall>od. r = Inr od \<longrightarrow> model_calls (trace s1) = model_calls (trace s) @ [(b, h ! cfg)]"
      by simp
    from sh have hc: "h ! cfg = (case decode_conf_arg a of None \<Rightarrow> heap s ! decode_conf self
                   | Some d \<Rightarrow> (\<lambda>k. case d k of None \<Rightarrow> (heap s ! decode_conf self) k
                                               | Some v \<Rightarrow> Some v))" by simp
    from sh hp have t: "take (length (heap s)) (heap s1) = heap s" by simp
    from mc hc mr t show ?thesis by metis
  qed
qed

lemma run_model_reaches_model:
  assumes dc: "decode_conf self < length (heap s)"
    and chk: "check_inputs self a = None"
    and pb: "prepare_batch self a s = (Inr b, sb)"
    and nc: "\<not> list_ex (\<lambda>k. b k \<noteq> None
               \<and> merged_conf (heap s ! decode_conf self) (decode_conf_arg a) k \<noteq> None) slot_names"
  shows "\<exists>h. run_model self a s =
      (model_inference (model self) b (merged_conf (heap s ! decode_conf self) (decode_conf_arg a)),
       log_call (Model_call b (merged_conf (heap s ! decode_conf self) (decode_conf_arg a)))
         (sb\<lparr>heap := h\<rparr>))"
proof -
  from prepare_batch_state[OF pb] have hs: "heap sb = heap s" by simp
  obtain cfg h where sc: "select_cfg self (decode_conf_arg a) (heap sb) = (cfg, h)"
    by (cases "select_cfg self (decode_conf_arg a) (heap sb)")
  from dc hs have dc': "decode_conf self < length (heap sb)" by simp
  from select_cfg_heap[OF dc' sc, unfolded hs, folded merged_conf_def]
  have m: "h ! cfg = merged_conf (heap s ! decode_conf self) (decode_conf_arg a)" by simp
  from chk pb sc have "run_model self a s = call_inference self b (h ! cfg) (sb\<lparr>heap := h\<rparr>)"
    by (simp add: run_model_def)
  with m nc show ?thesis by (auto simp: call_inference_def)
qed

lemma call_reaches_model:
  assumes dc: "decode_conf self < length (heap s)"
    and call: "SingingGenerate_call self a s = (r, s')"
    and chk: "check_inputs self a = None"
    and pb: "prepare_batch self a s = (Inr b, sb)"
    and nc: "\<not> list_ex (\<lambda>k. b k \<noteq> None
               \<and> merged_conf (heap s ! decode_conf self) (decode_conf_arg a) k \<noteq> None) slot_names"
  shows "model_calls (trace s') = model_calls (trace s) @
            [(b, merged_conf (heap s ! decode_conf self) (decode_conf_arg a))]
    \<and> (r, s') =
        (case model_inference (model self) b
                (merged_conf (heap s ! decode_conf self) (decode_conf_arg a)) of
           Inl e \<Rightarrow>
             (Inl e, log_call (Model_call b
                (merged_conf (heap s ! decode_conf self) (decode_conf_arg a)))
                (sb\<lparr>heap := heap s'\<rparr>))
         | Inr od \<Rightarrow>
             post_process self (kwargs a) od
               (log_call (Model_call b
                  (merged_conf (heap s ! decode_conf self) (decode_conf_arg a)))
                  (sb\<lparr>heap := heap s'\<rparr>)))"
proof -
  let ?m = "merged_conf (heap s ! decode_conf self) (decode_conf_arg a)"
  from run_model_reaches_model[OF dc chk pb nc] obtain h where
    rm: "run_model self a s = (model_inference (model self) b ?m,
           log_call (Model_call b ?m) (sb\<lparr>heap := h\<rparr>))" by blast
  let ?s1 = "log_call (Model_call b ?m) (sb\<lparr>heap := h\<rparr>)"
  from prepare_batch_state[OF pb]
  have mc1: "model_calls (trace ?s1) = model_calls (trace s) @ [(b, ?m)]" by simp
  have h1: "heap ?s1 = h" by simp
  show ?thesis
  proof (cases "model_inference (model self) b ?m")
    case (Inl e)
    with call rm have e: "r = Inl e" "s' = ?s1" by (simp_all add: SingingGenerate_call_def)
    with h1 have "heap s' = h" by simp
    with e Inl mc1 show ?thesis by simp
  next
    case (Inr od)
    with call rm have pp: "post_process self (kwargs a) od ?s1 = (r, s')"
      by (simp add: SingingGenerate_call_def)
    from post_process_state[OF pp] h1 mc1
    have "heap s' = h" and "model_calls (trace s') = model_calls (trace s) @ [(b, ?m)]"
      by simp_all
    with pp Inr show ?thesis by simp
  qed
qed

text \<open>
  C9: for every call on an orchestrator whose stored configuration is an object of the
  store, every dictionary that existed before the call is unchanged after it, the stored
  configuration among them; the acoustic model is called at most once, and when it is
  called (always when the call returns an output) the configuration it receives is the
  stored one with the override merged on top, the override winning key by key. When the
  input checks pass, the batch is assembled and no keyword of the merged configuration is
  also a key of the batch, the model is called, exactly once, with that batch and the
  merged configuration, and the call continues from what the model returns on them: its
  error is the call's error, its output is what the post-processing receives.
\<close>

theorem model_receives_merged_conf:
  assumes dc: "decode_conf self < length (heap s)"
    and call: "SingingGenerate_call self a s = (r, s')"
  shows "take (length (heap s)) (heap s') = heap s
    \<and> heap s' ! decode_conf self = heap s ! decode_conf self
    \<and> (model_calls (trace s') = model_calls (trace s)
        \<or> (\<exists>b. model_calls (trace s') = model_calls (trace s) @
              [(b, merged_conf (heap s ! decode_conf self) (decode_conf_arg a))]))
    \<and> ((\<exists>od. r = Inr od) \<longrightarrow>
         (\<exists>b. model_calls (trace s') = model_calls (trace s) @
              [(b, merged_conf (heap s ! decode_conf self) (decode_conf_arg a))]))
    \<and> (\<forall>b sb. check_inputs self a = None \<and> prepare_batch self a s = (Inr b, sb)
           \<and> \<not> list_ex (\<lambda>k. b k \<noteq> None
                 \<and> merged_conf (heap s ! decode_conf self) (decode_conf_arg a) k \<noteq> None)
                 slot_names
         \<longrightarrow> model_calls (trace s') = model_calls (trace s) @
                [(b, merged_conf (heap s ! decode_conf self) (decode_conf_arg a))]
             \<and> (r, s') =
                (case model_inference (model self) b
                        (merged_conf (heap s ! decode_conf self) (decode_conf_arg a)) of
                   Inl e \<Rightarrow>
                     (Inl e, log_call (Model_call b
                        (merged_conf (heap s ! decode_conf self) (decode_conf_arg a)))
                        (sb\<lparr>heap := heap s'\<rparr>))
                 | Inr od \<Rightarrow>
                     post_process self (kwargs a) od
                       (log_call (Model_call b
                          (merged_conf (heap s ! decode_conf self) (decode_conf_arg a)))
                          (sb\<lparr>heap := heap s'\<rparr>))))"
proof -
  obtain r1 s1 where rm: "run_model self a s = (r1, s1)" by (cases "run_model self a s")
  note rc = run_model_conf[OF dc rm, folded merged_conf_def]
  have st: "heap s' = heap s1 \<and> model_calls (trace s') = model_calls (trace s1)
            \<and> ((\<exists>od. r = Inr od) \<longrightarrow> (\<exists>od. r1 = Inr od))"
  proof (cases r1)
    case (Inl e)
    with call rm show ?thesis by (simp add: SingingGenerate_call_def)
  next
    case (Inr od)
    with call rm have "post_process self (kwargs a) od s1 = (r, s')"
      by (simp add: SingingGenerate_call_def)
    from post_process_state[OF this] Inr show ?thesis by simp
  qed
  from rc st have t: "take (length (heap s)) (heap s') = heap s" by simp
  from dc have "take (length (heap s)) (heap s') ! decode_conf self = heap s' ! decode_conf self"
    by simp
  with t have d: "heap s' ! decode_conf self = heap s ! decode_conf self" by simp
  from rc st have m: "model_calls (trace s') = model_calls (trace s)
        \<or> (\<exists>b. model_calls (trace s') = model_calls (trace s) @
              [(b, merged_conf (heap s ! decode_conf self) (decode_conf_arg a))])" by simp
  from rc st have p: "(\<exists>od. r = Inr od) \<longrightarrow>
         (\<exists>b. model_calls (trace s') = model_calls (trace s) @
              [(b, merged_conf (heap s ! decode_conf self) (decode_conf_arg a))])" by metis
  have q: "\<forall>b sb. check_inputs self a = None \<and> prepare_batch self a s = (Inr b, sb)
           \<and> \<not> list_ex (\<lambda>k. b k \<noteq> None
                 \<and> merged_conf (heap s ! decode_conf self) (decode_conf_arg a) k \<noteq> None)
                 slot_names
         \<longrightarrow> model_calls (trace s') = model_calls (trace s) @
                [(b, merged_conf (heap s ! decode_conf self) (decode_conf_arg a))]
             \<and> (r, s') =
                (case model_inference (model self) b
                        (merged_conf (heap s ! decode_conf self) (decode_conf_arg a)) of
                   Inl e \<Rightarrow>
                     (Inl e, log_call (Model_call b
                        (merged_conf (heap s ! decode_conf self) (decode_conf_arg a)))
                        (sb\<lparr>heap := heap s'\<rparr>))
                 | Inr od \<Rightarrow>
                     post_process self (kwargs a) od
                       (log_call (Model_call b
                          (merged_conf (heap s ! decode_conf self) (decode_conf_arg a)))
                          (sb\<lparr>heap := heap s'\<rparr>)))"
  proof (intro allI impI)
    fix b sb
    assume h: "check_inputs self a = None \<and> prepare_batch self a s = (Inr b, sb)
           \<and> \<not> list_ex (\<lambda>k. b k \<noteq> None
                 \<and> merged_conf (heap s ! decode_conf self) (decode_conf_arg a) k \<noteq> None)
                 slot_names"
    then have h1: "check_inputs self a = None" and h2: "prepare_batch self a s = (Inr b, sb)"
      and h3: "\<not> list_ex (\<lambda>k. b k \<noteq> None
                 \<and> merged_conf (heap s ! decode_conf self) (decode_conf_arg a) k \<noteq> None)
                 slot_names" by blast+
    show "model_calls (trace s') = model_calls (trace s) @
                [(b, merged_conf (heap s ! decode_conf self) (decode_conf_arg a))]
             \<and> (r, s') =
                (case model_inference (model self) b
                        (merged_conf (heap s ! decode_conf self) (decode_conf_arg a)) of
                   Inl e \<Rightarrow>
                     (Inl e, log_call (Model_call b
                        (merged_conf (heap s ! decode_conf self) (decode_conf_arg a)))
                        (sb\<lparr>heap := heap s'\<rparr>))
                 | Inr od \<Rightarrow>
                     post_process self (kwargs a) od
                       (log_call (Model_call b
                          (merged_conf (heap s ! decode_conf self) (decode_conf_arg a)))
                          (sb\<lparr>heap := heap s'\<rparr>)))"
      by (rule call_reaches_model[OF dc call h1 h2 h3])
  qed
  from t d m p q show ?thesis by (intro conjI)
qed

theorem model_receives_merged_conf_witness:
  "decode_conf (stub_self wav_output None 1 ''frame'') < length (heap stub_state)
   \<and> check_inputs (stub_self wav_output None 1 ''frame'') override_args = None
   \<and> prepare_batch (stub_self wav_output None 1 ''frame'') override_args stub_state
       = (Inr [''text'' \<mapsto> Tensor [3] [7, 8, 9]], stub_state)
   \<and> heap stub_state ! decode_conf (stub_self wav_output None 1 ''frame'')
       = [''use_teacher_forcing'' \<mapsto> VBool False]
   \<and> heap (snd (SingingGenerate_call (stub_self wav_output None 1 ''frame'') override_args stub_state))
        ! decode_conf (stub_self wav_output None 1 ''frame'')
      = heap stub_state ! decode_conf (stub_self wav_output None 1 ''frame'')
   \<and> model_calls (trace (snd (SingingGenerate_call (stub_self wav_output None 1 ''frame'')
         override_args stub_state)))
      = model_calls (trace stub_state) @
          [([''text'' \<mapsto> Tensor [3] [7, 8, 9]],
            merged_conf (heap stub_state ! decode_conf (stub_self wav_output None 1 ''frame''))
              (decode_conf_arg override_args))]
   \<and> merged_conf (heap stub_state ! decode_conf (stub_self wav_output None 1 ''frame''))
        (decode_conf_arg override_args) ''use_teacher_forcing'' = Some (VBool True)
   \<and> merged_conf (heap stub_state ! decode_conf (stub_self wav_output None 1 ''frame''))
        (decode_conf_arg override_args) ''noise_scale'' = Some (VFloat 0.5)"
proof -
  let ?self = "stub_self wav_output None 1 ''frame''"
  let ?m = "merged_conf (heap stub_state ! decode_conf ?self) (decode_conf_arg override_args)"
  have h: "decode_conf ?self < length (heap stub_state)"
    by (simp add: stub_self_def stub_state_def)
  have c: "SingingGenerate_call ?self override_args stub_state
     = (fst (SingingGenerate_call ?self override_args stub_state),
        snd (SingingGenerate_call ?self override_args stub_state))"
    by simp
  have chk: "check_inputs ?self override_args = None"
    by (simp add: check_inputs_def use_sids_def use_lids_def use_spembs_def stub_self_def
        stub_svs_def)
  have pb: "prepare_batch ?self override_args stub_state
       = (Inr [''text'' \<mapsto> Tensor [3] [7, 8, 9]], stub_state)"
    by (simp add: prepare_batch_def assemble_def update_if_def override_args_def stub_args_def)
  have st: "heap stub_state ! decode_conf ?self = [''use_teacher_forcing'' \<mapsto> VBool False]"
    by (simp add: stub_self_def stub_state_def)
  have m1: "?m ''use_teacher_forcing'' = Some (VBool True)"
    by (simp add: merged_conf_def override_args_def)
  have m2: "?m ''noise_scale'' = Some (VFloat 0.5)"
    by (simp add: merged_conf_def override_args_def)
  have nc: "\<not> list_ex (\<lambda>k. [''text'' \<mapsto> Tensor [3] [7, 8, 9::int]] k \<noteq> None \<and> ?m k \<noteq> None)
              slot_names"
    by (simp add: slot_names_def merged_conf_def override_args_def st)
  note t = model_receives_merged_conf[OF h c]
  from t have u: "heap (snd (SingingGenerate_call ?self override_args stub_state)) ! decode_conf ?self
      = heap stub_state ! decode_conf ?self"
    by (rule conjunct1[OF conjunct2])
  from t have q: "\<forall>b sb. check_inputs ?self override_args = None
           \<and> prepare_batch ?self override_args stub_state = (Inr b, sb)
           \<and> \<not> list_ex (\<lambda>k. b k \<noteq> None \<and> ?m k \<noteq> None) slot_names
         \<longrightarrow> model_calls (trace (snd (SingingGenerate_call ?self override_args stub_state)))
               = model_calls (trace stub_state) @ [(b, ?m)]
             \<and> (fst (SingingGenerate_call ?self override_args stub_state),
                 snd (SingingGenerate_call ?self override_args stub_state)) =
                (case model_inference (model ?self) b ?m of
                   Inl e \<Rightarrow>
                     (Inl e, log_call (Model_call b ?m)
                        (sb\<lparr>heap := heap (snd (SingingGenerate_call ?self override_args stub_state))\<rparr>))
                 | Inr od \<Rightarrow>
                     post_process ?self (kwargs override_args) od
                       (log_call (Model_call b ?m)
                          (sb\<lparr>heap := heap (snd (SingingGenerate_call ?self override_args stub_state))\<rparr>)))"
    by (rule conjunct2[OF conjunct2[OF conjunct2[OF conjunct2]]])
  from q chk pb nc
  have mc: "model_calls (trace (snd (SingingGenerate_call ?self override_args stub_state)))
      = model_calls (trace stub_state) @ [([''text'' \<mapsto> Tensor [3] [7, 8, 9]], ?m)]"
    by blast
  from h chk pb st u mc m1 m2 show ?thesis by (intro conjI)
qed

subsection \<open>A mix type outside the two documented values\<close>

text \<open>
  C10, as stated, fails: with two layers, a mix type that is neither \<open>frame\<close> nor
  \<open>sequence\<close> and \<open>use_singomd=True\<close>, the flat feature reaches \<open>input_feat[:, i]\<close>
  unreshaped, the call raises IndexError and the vocoder is not called.
\<close>

theorem unknown_mix_type_singomd_counterexample:
  "1 < discrete_token_layers (stub_self token_output (Some stub_vocoder) 2 ''both'')
   \<and> mix_type (stub_self token_output (Some stub_vocoder) 2 ''both'') \<noteq> ''frame''
   \<and> mix_type (stub_self token_output (Some stub_vocoder) 2 ''both'') \<noteq> ''sequence''
   \<and> fst (SingingGenerate_call (stub_self token_output (Some stub_vocoder) 2 ''both'')
        singomd_args stub_state) = Inl (IndexError ''too many indices for tensor'')
   \<and> vocoder_calls (trace (snd (SingingGenerate_call
        (stub_self token_output (Some stub_vocoder) 2 ''both'') singomd_args stub_state))) = []"
  by (simp add: call_defs stub_defs singomd_args_def singomd_def singomd_feat_def
      select_column_def)

text \<open>
  C10, amended: for every call that reaches the vocoder block (no attention weights, a
  vocoder configured, a feature tensor \<open>x\<close> selected, a pitch of one dimension if any)
  with more than one layer, a mix type that is neither \<open>frame\<close> nor \<open>sequence\<close> and
  \<open>use_singomd\<close> not \<open>True\<close>: the vocoder is called once with \<open>x\<close> as it is, and the
  call raises nothing but what the vocoder raises.
\<close>

theorem unknown_mix_type_passes_flat_feature:
  assumes rm: "run_model self a s = (Inr od, s1)"
    and att: "dict_get od ''att_w'' = None"
    and voc: "vocoder self = Some voc"
    and layers: "1 < discrete_token_layers self"
    and mix: "mix_type self \<noteq> ''frame''" "mix_type self \<noteq> ''sequence''"
    and kw: "kwargs a ''use_singomd'' \<noteq> Some (KwBool True)"
    and sel: "(if prefer_normalized_feats self \<or> dict_get od ''feat_gen_denorm'' = None
               then od ''feat_gen'' else od ''feat_gen_denorm'') = Some (Some x)"
    and pitch1: "\<forall>p. dict_get od ''pitch'' = Some p \<longrightarrow> length (shape p) = 1"
  shows "SingingGenerate_call self a s =
     (case voc (Feat x) (dict_get od ''pitch'') of
        Inl e \<Rightarrow> (Inl e, log_call (Vocoder_call (Feat x) (dict_get od ''pitch'')) s1)
      | Inr wav \<Rightarrow>
          (Inr (od(''duration'' \<mapsto> None, ''focus_rate'' \<mapsto> None, ''wav'' \<mapsto> Some wav)),
           log_call (Vocoder_call (Feat x) (dict_get od ''pitch'')) s1))"
proof -
  let ?od = "od(''duration'' \<mapsto> None, ''focus_rate'' \<mapsto> None)"
  have g: "dict_get ?od ''feat_gen_denorm'' = dict_get od ''feat_gen_denorm''"
          "dict_get ?od ''pitch'' = dict_get od ''pitch''"
          "?od ''feat_gen'' = od ''feat_gen''" "?od ''feat_gen_denorm'' = od ''feat_gen_denorm''"
    by (simp_all add: dict_get_def)
  have s1: "(if prefer_normalized_feats self \<or> dict_get ?od ''feat_gen_denorm'' = None
            then dict_getitem ?od ''feat_gen''
            else dict_getitem ?od ''feat_gen_denorm'') = Inr (Some x)"
    using sel unfolding g dict_getitem_def by (auto split: if_splits)
  have r: "mix_reshape (discrete_token_layers self) (mix_type self) (Feat x) = Inr (Feat x)"
    using mix by (simp add: mix_reshape_def)
  have sg: "singomd_step (discrete_token_layers self) (kwargs a) (Feat x) = Inr (Feat x)"
    using kw by (simp add: singomd_step_def)
  have av: "apply_vocoder self voc (kwargs a) ?od s1 =
     (case voc (Feat x) (dict_get od ''pitch'') of
        Inl e \<Rightarrow> (Inl e, log_call (Vocoder_call (Feat x) (dict_get od ''pitch'')) s1)
      | Inr wav \<Rightarrow>
          (Inr (?od(''wav'' \<mapsto> Some wav)),
           log_call (Vocoder_call (Feat x) (dict_get od ''pitch'')) s1))"
  proof (cases "dict_get od ''pitch''")
    case None
    then show ?thesis
      unfolding apply_vocoder_def s1 by (simp add: r sg g split: sum.splits)
  next
    case (Some p)
    with pitch1 have "length (shape p) = 1" by simp
    with Some show ?thesis
      unfolding apply_vocoder_def s1 by (simp add: r sg g split: sum.splits)
  qed
  have "SingingGenerate_call self a s = apply_vocoder self voc (kwargs a) ?od s1"
    using rm att voc by (simp add: SingingGenerate_call_def post_process_def)
  with av show ?thesis by simp
qed

theorem unknown_mix_type_witness:
  "run_model (stub_self token_output (Some stub_vocoder) 2 ''both'') stub_args stub_state
     = (Inr token_output, stub_called)
   \<and> 1 < discrete_token_layers (stub_self token_output (Some stub_vocoder) 2 ''both'')
   \<and> mix_type (stub_self token_output (Some stub_vocoder) 2 ''both'') \<noteq> ''frame''
   \<and> mix_type (stub_self token_output (Some stub_vocoder) 2 ''both'') \<noteq> ''sequence''
   \<and> SingingGenerate_call (stub_self token_output (Some stub_vocoder) 2 ''both'') stub_args stub_state
     = (Inr (token_output(''duration'' \<mapsto> None, ''focus_rate'' \<mapsto> None,
                          ''wav'' \<mapsto> Some (Tensor [4] [1, 2, 3, 4]))),
        log_call (Vocoder_call (Feat (Tensor [4] [0, 1, 2, 3])) None) stub_called)"
proof -
  let ?self = "stub_self token_output (Some stub_vocoder) 2 ''both''"
  have rm: "run_model ?self stub_args stub_state = (Inr token_output, stub_called)"
    by (rule run_model_stub)
  have att: "dict_get token_output ''att_w'' = None"
    by (simp add: dict_get_def token_output_def)
  have voc: "vocoder ?self = Some stub_vocoder" by (simp add: stub_self_def)
  have layers: "1 < discrete_token_layers ?self" by (simp add: stub_self_def)
  have mix: "mix_type ?self \<noteq> ''frame''" "mix_type ?self \<noteq> ''sequence''"
    by (simp_all add: stub_self_def)
  have kw: "kwargs stub_args ''use_singomd'' \<noteq> Some (KwBool True)"
    by (simp add: stub_args_def)
  have sel: "(if prefer_normalized_feats ?self \<or> dict_get token_output ''feat_gen_denorm'' = None
               then token_output ''feat_gen'' else token_output ''feat_gen_denorm'')
             = Some (Some (Tensor [4] [0, 1, 2, 3]))"
    by (simp add: dict_get_def token_output_def)
  have pn: "dict_get token_output ''pitch'' = None"
    by (simp add: dict_get_def token_output_def)
  then have pitch1: "\<forall>p. dict_get token_output ''pitch'' = Some p \<longrightarrow> length (shape p) = 1"
    by simp
  have "SingingGenerate_call ?self stub_args stub_state
     = (Inr (token_output(''duration'' \<mapsto> None, ''focus_rate'' \<mapsto> None,
                          ''wav'' \<mapsto> Some (Tensor [4] [1, 2, 3, 4]))),
        log_call (Vocoder_call (Feat (Tensor [4] [0, 1, 2, 3])) None) stub_called)"
    using unknown_mix_type_passes_flat_feature[OF rm att voc layers mix kw sel pitch1]
    by (simp add: pn stub_vocoder_def)
  with rm layers mix show ?thesis by blast
qed

subsection \<open>The constructor\<close>

lemma setup_decode_conf_eq:
  "setup_decode_conf cls th mn mx utf uac udf bw fw ns nsd h =
     (length h,
      h @ [(if isinstance_singing_tacotron cls
            then (\<lambda>m. m ++ [''threshold'' \<mapsto> VFloat th, ''maxlenratio'' \<mapsto> VFloat mx,
                             ''minlenratio'' \<mapsto> VFloat mn, ''use_att_constraint'' \<mapsto> VBool uac,
                             ''use_dynamic_filter'' \<mapsto> VBool udf, ''forward_window'' \<mapsto> VInt fw,
                             ''backward_window'' \<mapsto> VInt bw])
            else (\<lambda>m. m))
           ((if isinstance_VITS cls
             then (\<lambda>m. m ++ [''noise_scale'' \<mapsto> VFloat ns, ''noise_scale_dur'' \<mapsto> VFloat nsd])
             else (\<lambda>m. m))
            (Map.empty ++ [''use_teacher_forcing'' \<mapsto> VBool utf]))])"
  by (simp add: setup_decode_conf_def dict_new_def dict_update_def)




lemmas init_defs = SingingGenerate_init_def select_task_def build_vocoder_def stub_env_def
  stub_task_def stub_svs_def empty_state_def




subsection \<open>The batch runner\<close>

text \<open>
  C7: with a batch size or a number of devices above one the runner raises
  NotImplementedError and the state is as it was: no directory has been created, and the
  trace has no new entry, so no model, vocoder or loader has been built.
\<close>

theorem unsupported_batch_or_devices:
  assumes "1 < batch_size \<or> 1 < ngpu"
  shows "\<exists>msg. inference env batch_size ngpu utf ns nsd vc L mt task us s
           = (Inl (NotImplementedError msg), s)"
  using assms by (auto simp: inference_def)

theorem unsupported_batch_or_devices_witness:
  "(1::int) < 2 \<and> (\<exists>msg. inference (stub_env varying_model two_utterances) 2 0 False 0.667 0.8
        None 1 ''frame'' ''svs'' False empty_state = (Inl (NotImplementedError msg), empty_state))"
proof -
  have h: "(1::int) < 2 \<or> (1::int) < 0" by simp
  from unsupported_batch_or_devices[OF h] show ?thesis by simp
qed

subsection \<open>What a run writes and prunes\<close>



lemma write_to_fields [simp]:
  "dirs (write_to c k s) = dirs s" "received (write_to c k s) = received s @ [(c, k)]"
  by (simp_all add: write_to_def)












lemmas run_defs = inference_def finalize_def prune_list_def rmtree_def mkdirs_def mkdir_def
  utterance_def tensor_len_def index0_def size0_def endswith_def bind_args_def write_outputs_def
  write_features_def write_to_def two_utterances_def varying_model_def
  stub_duration_calculator_def stub_preprocess_def stub_vocoder_def





text \<open>
  C5, the code on an empty loader: the loop never assigns \<open>output_dict\<close>, so the first
  test after the loop, \<open>output_dict.get("feat_gen")\<close>, raises UnboundLocalError. The run
  ends with this error and the eight directories are all still there: nothing is pruned.
\<close>

theorem empty_loader_raises:
  "fst (inference (stub_env varying_model []) 1 0 False 0.667 0.8 None 1 ''frame'' ''svs'' False
          empty_state) = Inl (UnboundLocalError ''output_dict'')
   \<and> dirs (snd (inference (stub_env varying_model []) 1 0 False 0.667 0.8 None 1 ''frame'' ''svs''
          False empty_state))
       = {''norm'', ''denorm'', ''speech_shape'', ''wav'', ''att_ws'', ''probs'', ''durations'',
          ''focus_rates''}"
  by (simp add: run_defs init_defs setup_decode_conf_eq) auto




end
